theory Spec2Isabelle
  imports Complex_Main "HOL-Library.Sublist"
begin

section \<open>Python errors\<close>

text \<open>
  Every exception a modelled function can raise is a value of this type; a function that
  can raise returns \<open>py_error + 'a\<close> with \<open>Inl\<close> for the exception.
\<close>

datatype py_error =
  ZeroDivisionError | IndexError | KeyError | TypeError | ValueError | OverflowError

section \<open>Token bucket (core/rate\_limiter.py)\<close>




















section \<open>Python strings\<close>

text \<open>
  A Python \<open>str\<close> is a list of code points; a \<open>char\<close> stands for one code point
  below 256, so the model covers texts in that range. The character classes are those of
  \<open>str.isspace\<close>, \<open>str.splitlines\<close> and of the \<open>re\<close> module on \<open>str\<close> patterns,
  restricted to that range.
\<close>

definition is_space :: "char \<Rightarrow> bool" where
  "is_space c =
     (let n = (of_char c :: nat)
      in (9 \<le> n \<and> n \<le> 13) \<or> (28 \<le> n \<and> n \<le> 32) \<or> n = 133 \<or> n = 160)"

definition is_linebreak :: "char \<Rightarrow> bool" where
  "is_linebreak c =
     (let n = (of_char c :: nat)
      in (10 \<le> n \<and> n \<le> 13) \<or> (28 \<le> n \<and> n \<le> 30) \<or> n = 133)"

definition strip :: "string \<Rightarrow> string" where
  "strip s = rev (dropWhile is_space (rev (dropWhile is_space s)))"

text \<open>\<open>s[i:j]\<close> and \<open>s[i:]\<close> for indices that are not negative.\<close>

definition slice :: "string \<Rightarrow> nat \<Rightarrow> nat \<Rightarrow> string" where
  "slice s i j = take (j - i) (drop i s)"

definition slice_from :: "string \<Rightarrow> nat \<Rightarrow> string" where
  "slice_from s i = drop i s"

text \<open>
  \<open>str.splitlines()\<close>: a line ends at a line break character, \<open>\r\n\<close> counting as
  one; the breaks are dropped and no empty last line is produced. \<open>acc\<close> holds the current
  line, reversed.
\<close>

fun splitlines_acc :: "string \<Rightarrow> string \<Rightarrow> string list" where
  "splitlines_acc acc [] = (if acc = [] then [] else [rev acc])"
| "splitlines_acc acc (c # cs) =
     (if c = CHR 0x0D
      then (case cs of
              d # ds \<Rightarrow> if d = CHR 0x0A then rev acc # splitlines_acc [] ds
                        else rev acc # splitlines_acc [] cs
            | [] \<Rightarrow> rev acc # splitlines_acc [] cs)
      else if is_linebreak c then rev acc # splitlines_acc [] cs
      else splitlines_acc (c # acc) cs)"

definition splitlines :: "string \<Rightarrow> string list" where
  "splitlines s = splitlines_acc [] s"

section \<open>Form index (core/downloader.py)\<close>

text \<open>
  \<open>_parse_form_idx\<close> gets the index file by HTTP; the response is the input of the
  model. The result is the list of the rows of the data frame, in order; the empty data
  frame is the empty list.
\<close>

record response =
  status_code :: int
  resp_text :: string

record index_entry =
  Form_Type :: string
  Name :: string
  CIK :: string
  Date_Filed :: string
  Filename :: string

text \<open>\<open>next(i for i, line in enumerate(lines) if set(line.strip()) == {'-'})\<close>;
  \<open>None\<close> is \<open>StopIteration\<close>.\<close>

fun find_separator :: "string list \<Rightarrow> nat option" where
  "find_separator [] = None"
| "find_separator (line # lines) =
     (if set (strip line) = {CHR ''-''} then Some 0
      else map_option Suc (find_separator lines))"

definition index_entry_of :: "string \<Rightarrow> index_entry" where
  "index_entry_of line =
     \<lparr>Form_Type = strip (slice line 0 12),
      Name = strip (slice line 12 74),
      CIK = strip (slice line 74 86),
      Date_Filed = strip (slice line 86 98),
      Filename = strip (slice_from line 98)\<rparr>"

definition parse_form_idx :: "response \<Rightarrow> index_entry list" where
  "parse_form_idx r =
     (if status_code r \<noteq> 200 then []
      else
        (let lines = splitlines (resp_text r)
         in case find_separator lines of
              None \<Rightarrow> []
            | Some start_idx \<Rightarrow> map index_entry_of (drop (start_idx + 1) lines)))"

text \<open>A synthetic index: a header line, the separator and two data lines.\<close>

definition example_index :: string where
  "example_index =
     ''Form Type   Company Name'' @ [CHR 0x0A] @
     ''------------------------'' @ [CHR 0x0A] @
     ''13F-HR      BERKSHIRE HATHAWAY INC                                        1067983     2024-02-14  edgar/data/1067983/0000950123-24-002518.txt'' @ [CHR 0x0A] @
     ''13F-HR/A    TEST COMPANY INC                                              1234567     2024-02-15  edgar/data/1234567/0000123456-24-000789.txt   '' @ [CHR 0x0A]"
section \<open>Regular expressions (the part of Python's re the parsers use)\<close>

text \<open>
  A pattern is a list of items matched in sequence by backtracking, as \<open>re\<close> does: a
  literal, a repetition of a character class with its bounds (greedy or lazy), an
  alternation of literals tried in order, and the two ends of capture group 1. Every
  quantifier in the patterns of the parsers applies to a single character class.
\<close>

datatype rx =
    Lit string
  | Rep "char \<Rightarrow> bool" nat "nat option" bool
  | Alt "string list"
  | GroupOpen
  | GroupClose

datatype capture = NoGroup | Opened string | Closed string

fun first_some :: "('a \<Rightarrow> 'b option) \<Rightarrow> 'a list \<Rightarrow> 'b option" where
  "first_some f [] = None"
| "first_some f (x # xs) = (case f x of Some y \<Rightarrow> Some y | None \<Rightarrow> first_some f xs)"

text \<open>The numbers of characters a repetition may take, in the order they are tried.\<close>

definition rep_counts :: "(char \<Rightarrow> bool) \<Rightarrow> nat \<Rightarrow> nat option \<Rightarrow> bool \<Rightarrow> string \<Rightarrow> nat list" where
  "rep_counts p lo hi greedy s =
     (let run = length (takeWhile p s);
          kmax = (case hi of None \<Rightarrow> run | Some h \<Rightarrow> min h run);
          ks = [lo..<Suc kmax]
      in if greedy then rev ks else ks)"

text \<open>
  \<open>rx_match items s cap\<close> matches the items at the start of \<open>s\<close> and returns the
  capture and the rest of the text after the match.
\<close>

fun rx_match :: "rx list \<Rightarrow> string \<Rightarrow> capture \<Rightarrow> (capture \<times> string) option" where
  "rx_match [] s cap = Some (cap, s)"
| "rx_match (Lit l # items) s cap =
     (if prefix l s then rx_match items (drop (length l) s) cap else None)"
| "rx_match (Rep p lo hi greedy # items) s cap =
     first_some (\<lambda>k. rx_match items (drop k s) cap) (rep_counts p lo hi greedy s)"
| "rx_match (Alt ls # items) s cap =
     first_some (\<lambda>l. if prefix l s then rx_match items (drop (length l) s) cap else None) ls"
| "rx_match (GroupOpen # items) s cap = rx_match items s (Opened s)"
| "rx_match (GroupClose # items) s cap =
     rx_match items s
       (case cap of Opened s0 \<Rightarrow> Closed (take (length s0 - length s) s0) | _ \<Rightarrow> cap)"

record re_match =
  m_start :: nat
  m_end :: nat
  group0 :: string
  group1 :: "string option"

definition match_at :: "rx list \<Rightarrow> string \<Rightarrow> nat \<Rightarrow> re_match option" where
  "match_at items s pos =
     (case rx_match items s NoGroup of
        None \<Rightarrow> None
      | Some (cap, rest) \<Rightarrow>
          (let n = length s - length rest
           in Some \<lparr>m_start = pos, m_end = pos + n, group0 = take n s,
                    group1 = (case cap of Closed g \<Rightarrow> Some g | _ \<Rightarrow> None)\<rparr>))"

text \<open>\<open>re.search\<close>: the match at the leftmost position that has one.\<close>

fun search_from :: "rx list \<Rightarrow> string \<Rightarrow> nat \<Rightarrow> re_match option" where
  "search_from items [] pos = match_at items [] pos"
| "search_from items (c # cs) pos =
     (case match_at items (c # cs) pos of
        Some m \<Rightarrow> Some m
      | None \<Rightarrow> search_from items cs (Suc pos))"

definition re_search :: "rx list \<Rightarrow> string \<Rightarrow> re_match option" where
  "re_search items s = search_from items s 0"

text \<open>
  \<open>re.finditer\<close>: the matches from left to right, each search starting where the last
  match ended; \<open>skip\<close> counts the characters of the last match still to pass. The
  patterns iterated here never match the empty string.
\<close>

fun finditer_from :: "rx list \<Rightarrow> string \<Rightarrow> nat \<Rightarrow> nat \<Rightarrow> re_match list" where
  "finditer_from items [] pos skip =
     (if skip = 0 then (case match_at items [] pos of Some m \<Rightarrow> [m] | None \<Rightarrow> []) else [])"
| "finditer_from items (c # cs) pos skip =
     (if 0 < skip then finditer_from items cs (Suc pos) (skip - 1)
      else case match_at items (c # cs) pos of
             Some m \<Rightarrow> m # finditer_from items cs (Suc pos) (m_end m - pos - 1)
           | None \<Rightarrow> finditer_from items cs (Suc pos) 0)"

definition re_finditer :: "rx list \<Rightarrow> string \<Rightarrow> re_match list" where
  "re_finditer items s = finditer_from items s 0 0"

text \<open>\<open>re.sub(pattern, '', s)\<close>: the text with every match, left to right, removed.\<close>

fun sub_empty_from :: "rx list \<Rightarrow> string \<Rightarrow> nat \<Rightarrow> string" where
  "sub_empty_from items [] skip = []"
| "sub_empty_from items (c # cs) skip =
     (if 0 < skip then sub_empty_from items cs (skip - 1)
      else case rx_match items (c # cs) NoGroup of
             None \<Rightarrow> c # sub_empty_from items cs 0
           | Some (cap, rest) \<Rightarrow>
               (let n = length (c # cs) - length rest
                in if n = 0 then c # sub_empty_from items cs 0
                   else sub_empty_from items cs (n - 1)))"

definition re_sub_empty :: "rx list \<Rightarrow> string \<Rightarrow> string" where
  "re_sub_empty items s = sub_empty_from items s 0"

subsection \<open>Character classes\<close>

definition is_digit :: "char \<Rightarrow> bool" where
  "is_digit c = (let n = (of_char c :: nat) in 48 \<le> n \<and> n \<le> 57)"

definition is_upper_AZ :: "char \<Rightarrow> bool" where
  "is_upper_AZ c = (let n = (of_char c :: nat) in 65 \<le> n \<and> n \<le> 90)"

definition is_lower_az :: "char \<Rightarrow> bool" where
  "is_lower_az c = (let n = (of_char c :: nat) in 97 \<le> n \<and> n \<le> 122)"

definition is_letter :: "char \<Rightarrow> bool" where
  "is_letter c = (is_upper_AZ c \<or> is_lower_az c)"

text \<open>\<open>\w\<close>: alphanumeric by \<open>str.isalnum\<close>, or the underscore.\<close>

definition is_word :: "char \<Rightarrow> bool" where
  "is_word c =
     (let n = (of_char c :: nat)
      in is_digit c \<or> is_letter c \<or> n = 95 \<or> n = 170 \<or> n = 178 \<or> n = 179 \<or> n = 181
         \<or> n = 185 \<or> n = 186 \<or> (188 \<le> n \<and> n \<le> 190) \<or> (192 \<le> n \<and> n \<le> 214)
         \<or> (216 \<le> n \<and> n \<le> 246) \<or> 248 \<le> n)"

text \<open>\<open>.\<close> without \<open>DOTALL\<close>: any character but the newline.\<close>

definition dot :: "char \<Rightarrow> bool" where
  "dot c = (c \<noteq> CHR 0x0A)"

abbreviation plus :: "(char \<Rightarrow> bool) \<Rightarrow> rx" where
  "plus p \<equiv> Rep p 1 None True"

abbreviation star :: "(char \<Rightarrow> bool) \<Rightarrow> rx" where
  "star p \<equiv> Rep p 0 None True"

abbreviation plus_lazy :: "(char \<Rightarrow> bool) \<Rightarrow> rx" where
  "plus_lazy p \<equiv> Rep p 1 None False"

abbreviation star_lazy :: "(char \<Rightarrow> bool) \<Rightarrow> rx" where
  "star_lazy p \<equiv> Rep p 0 None False"

abbreviation one :: "(char \<Rightarrow> bool) \<Rightarrow> rx" where
  "one p \<equiv> Rep p 1 (Some 1) True"

text \<open>The shape of most header patterns: \<open>LABEL:\s+(class+)\<close>.\<close>

definition labelled :: "string \<Rightarrow> (char \<Rightarrow> bool) \<Rightarrow> rx list" where
  "labelled label p = [Lit label, plus is_space, GroupOpen, plus p, GroupClose]"
section \<open>Data frames\<close>

text \<open>
  A cell of a pandas data frame: \<open>pd.NA\<close>, \<open>NaT\<close>, Python's \<open>None\<close>, a string, a
  float (an exact real, or one of the special values), an integer, a boolean or a
  timestamp (year, month, day). A row is the list of its columns with their cells, in
  column order; a data frame is the list of its rows. The empty list is the frame
  \<open>pd.DataFrame()\<close> the parsers return when they give up: it has no rows and no columns.
\<close>

datatype cell =
    NA | NaT | PyNone
  | Str string
  | Float real | NaN | Infinity bool
  | Integer int
  | Boolean bool
  | Timestamp nat nat nat

type_synonym row = "(string \<times> cell) list"
type_synonym dataframe = "row list"

definition get_col :: "row \<Rightarrow> string \<Rightarrow> cell option" where
  "get_col r col = map_of r col"

text \<open>\<open>df[col] = df[col].apply(f)\<close> on one row: the column keeps its place.\<close>

definition map_col :: "string \<Rightarrow> (cell \<Rightarrow> cell) \<Rightarrow> row \<Rightarrow> row" where
  "map_col col f r = map (\<lambda>(k, v). if k = col then (k, f v) else (k, v)) r"

text \<open>\<open>df[col] = v\<close> on one row: an existing column is overwritten, a new one appended.\<close>

definition set_col :: "string \<Rightarrow> cell \<Rightarrow> row \<Rightarrow> row" where
  "set_col col v r = (if col \<in> set (map fst r) then map_col col (\<lambda>_. v) r else r @ [(col, v)])"

text \<open>
  The library functions the parsers call and whose code is not part of the repository are
  parameters of the model: \<open>strptime\<close> reads a date in the format \<open>%Y%m%d\<close> as pandas
  does (\<open>None\<close> when it cannot), \<open>fromstring\<close> is \<open>ET.fromstring\<close> (\<open>None\<close> for a
  parse error), \<open>read_csv\<close> is what \<open>pd.read_csv\<close> gives back for rows written by
  \<open>to_csv\<close>, and \<open>loc_assign existing_df new_cik row\<close> is the assignment
  \<open>existing_df.loc[existing_df['CIK'] == new_cik] = row\<close>, which returns the frame it leaves
  or the exception pandas raises.
\<close>

datatype xml = Element (tag: string) (text_of: "string option") (children: "xml list")

record library =
  strptime :: "string \<Rightarrow> (nat \<times> nat \<times> nat) option"
  fromstring :: "string \<Rightarrow> xml option"
  read_csv :: "dataframe \<Rightarrow> dataframe"
  loc_assign :: "dataframe \<Rightarrow> cell \<Rightarrow> row \<Rightarrow> py_error + dataframe"

text \<open>\<open>pd.to_datetime(col, format='%Y%m%d', errors='coerce')\<close> on one cell.\<close>

definition to_datetime :: "library \<Rightarrow> cell \<Rightarrow> cell" where
  "to_datetime lib v =
     (case v of
        Str s \<Rightarrow> (case strptime lib s of Some (y, m, d) \<Rightarrow> Timestamp y m d | None \<Rightarrow> NaT)
      | _ \<Rightarrow> NaT)"

subsection \<open>Python's float() and int() on strings\<close>

text \<open>
  \<open>digitpart\<close> reads digits with single underscores between them and returns the digits
  and the rest; no digits means there is no digit part.
\<close>

fun digitpart :: "string \<Rightarrow> string \<times> string" where
  "digitpart [] = ([], [])"
| "digitpart (c # cs) =
     (if \<not> is_digit c then ([], c # cs)
      else (case cs of
              u # d # ds \<Rightarrow>
                if u = CHR ''_'' \<and> is_digit d
                then (let (x, r) = digitpart (d # ds) in (c # x, r))
                else (let (x, r) = digitpart cs in (c # x, r))
            | _ \<Rightarrow> (let (x, r) = digitpart cs in (c # x, r))))"

definition nat_of_digits :: "string \<Rightarrow> nat" where
  "nat_of_digits ds = foldl (\<lambda>a c. 10 * a + (of_char c - 48)) 0 ds"

definition take_sign :: "string \<Rightarrow> bool \<times> string" where
  "take_sign s =
     (case s of
        c # cs \<Rightarrow> if c = CHR ''-'' then (True, cs) else if c = CHR ''+'' then (False, cs)
                  else (False, s)
      | [] \<Rightarrow> (False, s))"

definition to_lower :: "char \<Rightarrow> char" where
  "to_lower c = (if is_upper_AZ c then char_of (of_char c + (32 :: nat)) else c)"

definition signed :: "bool \<Rightarrow> real \<Rightarrow> real" where
  "signed neg x = (if neg then - x else x)"

text \<open>
  A Python float is an IEEE double. \<open>bit_length\<close> is the number of binary digits of a
  natural number, \<open>binary_exponent x\<close> the integer part of the binary logarithm of a
  positive \<open>x\<close>, and \<open>nearest_double\<close> rounds a value that is not negative to the
  nearest number with 53 significant bits (to the nearest multiple of \<open>2^-1074\<close> below
  the normal range), ties to the even one, and to infinity from \<open>2^1024\<close> on. The sign
  of a zero is not kept.
\<close>

fun bit_length :: "nat \<Rightarrow> nat" where
  "bit_length n = (if n = 0 then 0 else Suc (bit_length (n div 2)))"

declare bit_length.simps [simp del]

definition pow2 :: "int \<Rightarrow> real" where
  "pow2 i = (if 0 \<le> i then 2 ^ nat i else 1 / 2 ^ nat (- i))"

definition binary_exponent :: "real \<Rightarrow> int" where
  "binary_exponent x =
     (if 1 \<le> x then int (bit_length (nat \<lfloor>x\<rfloor>)) - 1
      else - int (bit_length (nat \<lceil>1 / x\<rceil> - 1)))"

definition round_half_even :: "real \<Rightarrow> int" where
  "round_half_even x =
     (let f = \<lfloor>x\<rfloor>; d = x - of_int f
      in if d < 1 / 2 then f else if 1 / 2 < d then f + 1 else if even f then f else f + 1)"

definition nearest_double :: "bool \<Rightarrow> real \<Rightarrow> cell" where
  "nearest_double neg x =
     (if x = 0 then Float 0
      else
        (let s = max (binary_exponent x - 52) (- 1074);
             m = round_half_even (x / pow2 s);
             y = of_int m * pow2 s
         in if 2 ^ 1024 \<le> y then Infinity neg else Float (signed neg y)))"

text \<open>
  \<open>float(s)\<close>: \<open>None\<close> is ValueError. The value is the double nearest to the decimal
  value the string writes.
\<close>

definition py_float :: "string \<Rightarrow> cell option" where
  "py_float s =
     (let (neg, u) = take_sign (strip s);
          low = map to_lower u
      in if low = ''inf'' \<or> low = ''infinity'' then Some (Infinity neg)
         else if low = ''nan'' then Some NaN
         else
           (let (ip, r1) = digitpart u;
                (fp, r2) = (case r1 of
                              c # r \<Rightarrow> if c = CHR ''.'' then digitpart r else ([], r1)
                            | [] \<Rightarrow> ([], r1));
                mant = real (nat_of_digits (ip @ fp)) / 10 ^ length fp
            in if ip = [] \<and> fp = [] then None
               else (case r2 of
                       [] \<Rightarrow> Some (nearest_double neg mant)
                     | e # r \<Rightarrow>
                         if e = CHR ''e'' \<or> e = CHR ''E''
                         then (let (eneg, r3) = take_sign r;
                                   (ed, r4) = digitpart r3
                               in if ed = [] \<or> r4 \<noteq> [] then None
                                  else if eneg
                                  then Some (nearest_double neg (mant / 10 ^ nat_of_digits ed))
                                  else Some (nearest_double neg (mant * 10 ^ nat_of_digits ed)))
                         else None)))"

text \<open>\<open>int(s)\<close> on a string: an optional sign and a digit part.\<close>

definition py_int_of_string :: "string \<Rightarrow> int option" where
  "py_int_of_string s =
     (let (neg, u) = take_sign (strip s);
          (ds, r) = digitpart u
      in if ds = [] \<or> r \<noteq> [] then None
         else Some (if neg then - int (nat_of_digits ds) else int (nat_of_digits ds)))"

text \<open>\<open>Series.astype(float, errors='ignore')\<close> on one cell of an object column.\<close>

definition float_of_cell :: "cell \<Rightarrow> cell option" where
  "float_of_cell v =
     (case v of
        Str s \<Rightarrow> py_float s
      | PyNone \<Rightarrow> Some NaN
      | Float x \<Rightarrow> Some (Float x)
      | NaN \<Rightarrow> Some NaN
      | Infinity b \<Rightarrow> Some (Infinity b)
      | Integer i \<Rightarrow> Some (Float (of_int i))
      | Boolean b \<Rightarrow> Some (Float (if b then 1 else 0))
      | _ \<Rightarrow> None)"

text \<open>The whole column is converted, or, when one cell cannot be, left as it was.\<close>

definition those_cells :: "cell option list \<Rightarrow> cell list option" where
  "those_cells xs = (if list_all (\<lambda>x. x \<noteq> None) xs then Some (map the xs) else None)"

definition astype_float_ignore :: "cell list \<Rightarrow> cell list" where
  "astype_float_ignore col =
     (case those_cells (map float_of_cell col) of Some fs \<Rightarrow> fs | None \<Rightarrow> col)"
section \<open>Header and filing metadata (parsers/base\_parser.py, parsers/form\_13f\_parser.py)\<close>

definition not_lbracket :: "char \<Rightarrow> bool" where
  "not_lbracket c = (c \<noteq> CHR ''['')"

definition word_or_hyphen :: "char \<Rightarrow> bool" where
  "word_or_hyphen c = (is_word c \<or> c = CHR ''-'')"

definition phone_char :: "char \<Rightarrow> bool" where
  "phone_char c = (is_digit c \<or> c = CHR ''-'' \<or> c = CHR ''('' \<or> c = CHR '')'' \<or> is_space c)"

text \<open>The \<open>patterns\<close> dictionary of \<open>parse_company_info\<close>: field, pattern, default.\<close>

definition company_patterns :: "(string \<times> rx list \<times> cell) list" where
  "company_patterns =
     [(''CIK'', labelled ''CENTRAL INDEX KEY:'' is_digit, NA),
      (''IRS_NUMBER'', labelled ''IRS NUMBER:'' is_digit, NA),
      (''COMPANY_CONFORMED_NAME'', labelled ''COMPANY CONFORMED NAME:'' dot, NA),
      (''DATE'', labelled ''DATE AS OF CHANGE:'' is_digit, NA),
      (''STATE_INC'', labelled ''STATE OF INCORPORATION:'' is_upper_AZ, NA),
      (''SIC'', labelled ''STANDARD INDUSTRIAL CLASSIFICATION:'' not_lbracket, NA),
      (''ORGANIZATION_NAME'', labelled ''ORGANIZATION NAME:'' dot, NA),
      (''FISCAL_YEAR_END'', labelled ''FISCAL YEAR END:'' is_digit, NA),
      (''BUSINESS_ADRESS_STREET_1'', labelled ''STREET 1:'' dot, NA),
      (''BUSINESS_ADRESS_STREET_2'', labelled ''STREET 2:'' dot, NA),
      (''BUSINESS_ADRESS_CITY'', labelled ''CITY:'' is_letter, NA),
      (''BUSINESS_ADRESS_STATE'', labelled ''STATE:'' is_upper_AZ, NA),
      (''BUSINESS_ADRESS_ZIP'', labelled ''ZIP:'' is_digit, NA),
      (''BUSINESS_PHONE'', labelled ''BUSINESS PHONE:'' is_digit, NA),
      (''MAIL_ADRESS_STREET_1'', labelled ''STREET 1:'' dot, NA),
      (''MAIL_ADRESS_STREET_2'', labelled ''STREET 2:'' dot, NA),
      (''MAIL_ADRESS_CITY'', labelled ''CITY:'' is_letter, NA),
      (''MAIL_ADRESS_STATE'', labelled ''STATE:'' is_upper_AZ, NA),
      (''MAIL_ADRESS_ZIP'', labelled ''ZIP:'' is_digit, NA),
      (''FORMER_COMPANY_NAME'', labelled ''FORMER CONFORMED NAME:'' dot, NA),
      (''DATE_OF_NAME_CHANGE'', labelled ''DATE OF NAME CHANGE:'' is_digit, NA)]"

text \<open>
  The body of the extraction loop: \<open>match.group(1).strip() if match else default\<close>, the
  default also where the code catches AttributeError or IndexError.
\<close>

definition extract_field :: "rx list \<Rightarrow> cell \<Rightarrow> string \<Rightarrow> cell" where
  "extract_field pattern dflt content =
     (case re_search pattern content of
        None \<Rightarrow> dflt
      | Some m \<Rightarrow> (case group1 m of Some g \<Rightarrow> Str (strip g) | None \<Rightarrow> dflt))"

definition extract_all :: "(string \<times> rx list \<times> cell) list \<Rightarrow> string \<Rightarrow> row" where
  "extract_all patterns content =
     map (\<lambda>(field, pattern, dflt). (field, extract_field pattern dflt content)) patterns"

definition parse_company_info :: "library \<Rightarrow> string \<Rightarrow> dataframe" where
  "parse_company_info lib content =
     (let info = extract_all company_patterns content;
          r1 = map_col ''DATE'' (to_datetime lib) info;
          r2 = map_col ''DATE_OF_NAME_CHANGE'' (to_datetime lib) r1
      in [r2])"

definition cik10_pattern :: "rx list" where
  "cik10_pattern =
     [Lit ''CENTRAL INDEX KEY:'', plus is_space, GroupOpen, Rep is_digit 10 (Some 10) True,
      GroupClose]"

definition accession_pattern :: "rx list" where
  "accession_pattern =
     [Lit ''ACCESSION NUMBER:'', plus is_space, GroupOpen, plus is_digit, Lit ''-'',
      plus is_digit, Lit ''-'', plus is_digit, GroupClose]"

definition tagged :: "string \<Rightarrow> (char \<Rightarrow> bool) \<Rightarrow> string \<Rightarrow> rx list" where
  "tagged before p after = [Lit before, GroupOpen, plus p, GroupClose, Lit after]"

definition accession_patterns :: "(string \<times> rx list \<times> cell) list" where
  "accession_patterns =
     [(''CIK'', cik10_pattern, NA),
      (''ACCESSION_NUMBER'', accession_pattern, NA),
      (''DOC_TYPE'', labelled ''CONFORMED SUBMISSION TYPE:'' word_or_hyphen, NA),
      (''FORM_TYPE'', tagged ''<type>'' word_or_hyphen ''</type>'', NA),
      (''CONFORMED_DATE'', labelled ''CONFORMED PERIOD OF REPORT:'' is_digit, NA),
      (''FILED_DATE'', labelled ''FILED AS OF DATE:'' is_digit, NA),
      (''EFFECTIVENESS_DATE'', labelled ''EFFECTIVENESS DATE:'' is_digit, NA),
      (''PUBLIC_DOCUMENT_COUNT'', labelled ''PUBLIC DOCUMENT COUNT:'' is_digit, NA),
      (''SEC_ACT'', labelled ''SEC ACT:'' dot, NA),
      (''SEC_FILE_NUMBER'', labelled ''SEC FILE NUMBER:'' dot, NA),
      (''FILM_NUMBER'', labelled ''FILM NUMBER:'' is_digit, NA)]"

text \<open>
  \<open>col.str.replace('-', '')\<close> on one cell of an object column: a missing value stays
  as it is. Then \<open>astype(float, errors='ignore')\<close>, here on a column of one cell.
\<close>

definition str_replace_hyphen :: "cell \<Rightarrow> cell" where
  "str_replace_hyphen v = (case v of Str s \<Rightarrow> Str (filter (\<lambda>c. c \<noteq> CHR ''-'') s) | _ \<Rightarrow> v)"

definition astype_float_cell :: "cell \<Rightarrow> cell" where
  "astype_float_cell v = hd (astype_float_ignore [v])"

definition format_accession_row :: "library \<Rightarrow> row \<Rightarrow> row" where
  "format_accession_row lib info =
     (let r1 = map_col ''CONFORMED_DATE'' (to_datetime lib) info;
          r2 = map_col ''FILED_DATE'' (to_datetime lib) r1;
          r3 = map_col ''EFFECTIVENESS_DATE'' (to_datetime lib) r2;
          r4 = map_col ''ACCESSION_NUMBER'' (astype_float_cell \<circ> str_replace_hyphen) r3;
          r5 = map_col ''CIK'' astype_float_cell r4
      in r5)"

definition parse_accession_info :: "library \<Rightarrow> string \<Rightarrow> dataframe" where
  "parse_accession_info lib content =
     [format_accession_row lib (extract_all accession_patterns content)]"

text \<open>The additional fields of \<open>Form13FParser.parse_accession_info\<close>.\<close>

definition form13f_patterns :: "(string \<times> rx list \<times> cell) list" where
  "form13f_patterns =
     [(''NUMBER_TRADES'', tagged ''tableEntryTotal>'' is_digit ''</'', NA),
      (''TOTAL_VALUE'', tagged ''tableValueTotal>'' is_digit ''</'', NA),
      (''OTHER_INCLUDED_MANAGERS_COUNT'', tagged ''otherIncludedManagersCount>'' is_digit ''</'', NA),
      (''IS_CONFIDENTIAL_OMITTED'',
         [Lit ''isConfidentialOmitted>'', GroupOpen, Alt [''true'', ''false''], GroupClose,
          Lit ''</''], NA),
      (''REPORT_TYPE'', tagged ''reportType>'' dot ''</'', NA),
      (''FORM_13F_FILE_NUMBER'', tagged ''form13FFileNumber>'' dot ''</'', NA),
      (''PROVIDE_INFO_FOR_INSTRUCTION5'',
         [Lit ''provideInfoForInstruction5>'', GroupOpen, Alt [''Y'', ''N''], GroupClose,
          Lit ''</''], NA),
      (''SIGNATURE_NAME'',
         [Lit ''<signatureBlock>'', star is_space, Lit ''<n>'', GroupOpen, plus_lazy dot,
          GroupClose, Lit ''</n>''], NA),
      (''SIGNATURE_TITLE'',
         [Lit ''<title>'', GroupOpen, plus_lazy dot, GroupClose, Lit ''</title>''], NA),
      (''SIGNATURE_PHONE'', tagged ''<phone>'' phone_char ''</phone>'', NA)]"

text \<open>\<open>col.map({'true': True, 'false': False})\<close> on one cell.\<close>

definition map_true_false :: "cell \<Rightarrow> cell" where
  "map_true_false v =
     (if v = Str ''true'' then Boolean True else if v = Str ''false'' then Boolean False
      else NaN)"

definition Form13FParser_parse_accession_info :: "library \<Rightarrow> string \<Rightarrow> dataframe" where
  "Form13FParser_parse_accession_info lib content =
     (let accession_info_df = parse_accession_info lib content;
          info = extract_all form13f_patterns content;
          form_13f_row = map_col ''IS_CONFIDENTIAL_OMITTED'' map_true_false info
      in map (\<lambda>r. foldl (\<lambda>acc (col, v). set_col col v acc) r form_13f_row) accession_info_df)"

text \<open>\<open>get_form_type\<close> and the factory's \<open>_extract_form_type\<close>.\<close>

definition get_form_type :: "string \<Rightarrow> string" where
  "get_form_type content =
     (case re_search (labelled ''CONFORMED SUBMISSION TYPE:'' word_or_hyphen) content of
        None \<Rightarrow> []
      | Some m \<Rightarrow> (case group1 m of Some g \<Rightarrow> strip g | None \<Rightarrow> []))"
section \<open>The single-class parser (core/parser.py)\<close>

text \<open>
  \<open>SECFilingParser\<close> builds its dictionaries entry by entry:
  \<open>re.search(p, content).group(1) if re.search(p, content) else pd.NA\<close>, some entries
  with \<open>.strip()\<close>. Each entry of the tables below is the field, its pattern and whether
  the entry strips. Every pattern has its group on each path, so \<open>group(1)\<close> of a match
  is a string (lemma \<open>labelled_group1\<close> and its kin); the model gives \<open>NA\<close> otherwise.
\<close>

definition search_field :: "rx list \<Rightarrow> bool \<Rightarrow> string \<Rightarrow> cell" where
  "search_field pattern stripped content =
     (case re_search pattern content of
        None \<Rightarrow> NA
      | Some m \<Rightarrow>
          (case group1 m of
             Some g \<Rightarrow> Str (if stripped then strip g else g)
           | None \<Rightarrow> NA))"

definition search_all :: "(string \<times> rx list \<times> bool) list \<Rightarrow> string \<Rightarrow> row" where
  "search_all entries content =
     map (\<lambda>(field, pattern, stripped). (field, search_field pattern stripped content)) entries"

definition SECFilingParser_company_fields :: "(string \<times> rx list \<times> bool) list" where
  "SECFilingParser_company_fields =
     [(''CIK'', labelled ''CENTRAL INDEX KEY:'' is_digit, False),
      (''IRS_NUMBER'', labelled ''IRS NUMBER:'' is_digit, False),
      (''COMPANY_CONFORMED_NAME'', labelled ''COMPANY CONFORMED NAME:'' dot, True),
      (''DATE'', labelled ''DATE AS OF CHANGE:'' is_digit, False),
      (''STATE_INC'', labelled ''STATE OF INCORPORATION:'' is_upper_AZ, False),
      (''SIC'', labelled ''STANDARD INDUSTRIAL CLASSIFICATION:'' not_lbracket, True),
      (''ORGANIZATION_NAME'', labelled ''ORGANIZATION NAME:'' dot, True),
      (''FISCAL_YEAR_END'', labelled ''FISCAL YEAR END:'' is_digit, False),
      (''BUSINESS_ADRESS_STREET_1'', labelled ''STREET 1:'' dot, True),
      (''BUSINESS_ADRESS_STREET_2'', labelled ''STREET 2:'' dot, True),
      (''BUSINESS_ADRESS_CITY'', labelled ''CITY:'' is_letter, False),
      (''BUSINESS_ADRESS_STATE'', labelled ''STATE:'' is_upper_AZ, False),
      (''BUSINESS_ADRESS_ZIP'', labelled ''ZIP:'' is_digit, False),
      (''BUSINESS_PHONE'', labelled ''BUSINESS PHONE:'' is_digit, False),
      (''MAIL_ADRESS_STREET_1'', labelled ''STREET 1:'' dot, True),
      (''MAIL_ADRESS_STREET_2'', labelled ''STREET 2:'' dot, True),
      (''MAIL_ADRESS_CITY'', labelled ''CITY:'' is_letter, False),
      (''MAIL_ADRESS_STATE'', labelled ''STATE:'' is_upper_AZ, False),
      (''MAIL_ADRESS_ZIP'', labelled ''ZIP:'' is_digit, False),
      (''FORMER_COMPANY_NAME'', labelled ''FORMER CONFORMED NAME:'' dot, True),
      (''DATE_OF_NAME_CHANGE'', labelled ''DATE OF NAME CHANGE:'' is_digit, False)]"

definition SECFilingParser_parse_company_info :: "library \<Rightarrow> string \<Rightarrow> dataframe" where
  "SECFilingParser_parse_company_info lib content =
     (let info = search_all SECFilingParser_company_fields content;
          r1 = map_col ''DATE'' (to_datetime lib) info;
          r2 = map_col ''DATE_OF_NAME_CHANGE'' (to_datetime lib) r1
      in [r2])"

definition SECFilingParser_accession_fields :: "(string \<times> rx list \<times> bool) list" where
  "SECFilingParser_accession_fields =
     [(''CIK'', cik10_pattern, False),
      (''ACCESSION_NUMBER'', accession_pattern, False),
      (''DOC_TYPE'', labelled ''CONFORMED SUBMISSION TYPE:'' word_or_hyphen, False),
      (''FORM_TYPE'', tagged ''<type>'' word_or_hyphen ''</type>'', False),
      (''CONFORMED_DATE'', labelled ''CONFORMED PERIOD OF REPORT:'' is_digit, False),
      (''FILED_DATE'', labelled ''FILED AS OF DATE:'' is_digit, False),
      (''EFFECTIVENESS_DATE'', labelled ''EFFECTIVENESS DATE:'' is_digit, False),
      (''PUBLIC_DOCUMENT_COUNT'', labelled ''PUBLIC DOCUMENT COUNT:'' is_digit, False),
      (''SEC_ACT'', labelled ''SEC ACT:'' dot, True),
      (''SEC_FILE_NUMBER'', labelled ''SEC FILE NUMBER:'' dot, True),
      (''FILM_NUMBER'', labelled ''FILM NUMBER:'' is_digit, False),
      (''NUMBER_TRADES'', tagged ''tableEntryTotal>'' is_digit ''</'', False),
      (''TOTAL_VALUE'', tagged ''tableValueTotal>'' is_digit ''</'', False),
      (''OTHER_INCLUDED_MANAGERS_COUNT'', tagged ''otherIncludedManagersCount>'' is_digit ''</'',
         False),
      (''IS_CONFIDENTIAL_OMITTED'',
         [Lit ''isConfidentialOmitted>'', GroupOpen, Alt [''true'', ''false''], GroupClose,
          Lit ''</''], False),
      (''REPORT_TYPE'', tagged ''reportType>'' dot ''</'', False),
      (''FORM_13F_FILE_NUMBER'', tagged ''form13FFileNumber>'' dot ''</'', False),
      (''PROVIDE_INFO_FOR_INSTRUCTION5'',
         [Lit ''provideInfoForInstruction5>'', GroupOpen, Alt [''Y'', ''N''], GroupClose,
          Lit ''</''], False),
      (''SIGNATURE_NAME'',
         [Lit ''<signatureBlock>'', star is_space, Lit ''<name>'', GroupOpen, plus_lazy dot,
          GroupClose, Lit ''</name>''], True),
      (''SIGNATURE_TITLE'',
         [Lit ''<title>'', GroupOpen, plus_lazy dot, GroupClose, Lit ''</title>''], True),
      (''SIGNATURE_PHONE'', tagged ''<phone>'' phone_char ''</phone>'', True)]"

definition SECFilingParser_parse_accession_info :: "library \<Rightarrow> string \<Rightarrow> dataframe" where
  "SECFilingParser_parse_accession_info lib content =
     (let info = search_all SECFilingParser_accession_fields content;
          r = format_accession_row lib info
      in [map_col ''IS_CONFIDENTIAL_OMITTED'' map_true_false r])"

text \<open>The sample filing of tests/test\_parser.py, up to its XML part.\<close>

definition sample_header :: string where
  "sample_header =
     [CHR 0x0A] @ ''CENTRAL INDEX KEY:          0001234567'' @
     [CHR 0x0A] @ ''COMPANY CONFORMED NAME:     TEST COMPANY INC'' @
     [CHR 0x0A] @ ''STATE OF INCORPORATION:     DE'' @
     [CHR 0x0A] @ ''STANDARD INDUSTRIAL CLASSIFICATION: BUSINESS SERVICES'' @
     [CHR 0x0A] @ ''FISCAL YEAR END:            1231'' @
     [CHR 0x0A] @ ''ACCESSION NUMBER:           000-12345-6789'' @
     [CHR 0x0A] @ ''CONFORMED SUBMISSION TYPE:  13F-HR'' @
     [CHR 0x0A] @ ''CONFORMED PERIOD OF REPORT: 20231231'' @
     [CHR 0x0A] @ ''FILED AS OF DATE:           20240215'' @
     [CHR 0x0A]"
section \<open>Locating the holdings fragment (extract\_xml)\<close>

definition accession_number_of :: "string \<Rightarrow> string option" where
  "accession_number_of content =
     (case re_search accession_pattern content of Some m \<Rightarrow> group1 m | None \<Rightarrow> None)"

definition conformed_date_of :: "string \<Rightarrow> string option" where
  "conformed_date_of content =
     (case re_search (labelled ''CONFORMED PERIOD OF REPORT:'' is_digit) content of
        Some m \<Rightarrow> group1 m
      | None \<Rightarrow> None)"

definition xml_start_tags :: "string \<Rightarrow> nat list" where
  "xml_start_tags content = map m_start (re_finditer [Lit ''<XML>''] content)"

definition xml_end_tags :: "string \<Rightarrow> nat list" where
  "xml_end_tags content = map m_start (re_finditer [Lit ''</XML>''] content)"

definition xml_indices :: "string \<Rightarrow> (nat \<times> nat) list" where
  "xml_indices content = zip (xml_start_tags content) (xml_end_tags content)"

text \<open>\<open>re.sub(r'\n<\?xml.*?\?>', '', xml_content)\<close>\<close>

definition strip_declaration :: "string \<Rightarrow> string" where
  "strip_declaration xml_content =
     re_sub_empty [Lit (CHR 0x0A # ''<?xml''), star_lazy dot, Lit ''?>''] xml_content"

text \<open>
  The first method, shared by both parsers: the second pair of tag positions when there
  are two pairs or more, otherwise the first; \<open>None\<close> when there is no pair.
\<close>

definition xml_between_tags :: "string \<Rightarrow> string option" where
  "xml_between_tags content =
     (case xml_indices content of
        [] \<Rightarrow> None
      | p # ps \<Rightarrow>
          (let (start_index, end_index) = (case ps of [] \<Rightarrow> p | q # _ \<Rightarrow> q);
               xml_content = slice content start_index (end_index + length ''</XML>'')
           in Some (strip_declaration xml_content)))"

definition SECFilingParser_extract_xml ::
  "string \<Rightarrow> string option \<times> string option \<times> string option" where
  "SECFilingParser_extract_xml content =
     (xml_between_tags content, accession_number_of content, conformed_date_of content)"

subsection \<open>The fallbacks of Form13FParser.extract\_xml\<close>

definition strip_chars :: "string \<Rightarrow> string \<Rightarrow> string" where
  "strip_chars chars s =
     rev (dropWhile (\<lambda>c. c \<in> set chars) (rev (dropWhile (\<lambda>c. c \<in> set chars) s)))"

text \<open>\<open>str.split()\<close>: the maximal runs of characters that are not whitespace.\<close>

fun split_acc :: "string \<Rightarrow> string \<Rightarrow> string list" where
  "split_acc acc [] = (if acc = [] then [] else [rev acc])"
| "split_acc acc (c # cs) =
     (if is_space c then (if acc = [] then split_acc [] cs else rev acc # split_acc [] cs)
      else split_acc (c # acc) cs)"

definition py_split :: "string \<Rightarrow> string list" where
  "py_split s = split_acc [] s"

text \<open>\<open>s.rfind(sub, start)\<close>; \<open>None\<close> stands for \<open>-1\<close>.\<close>

definition rfind :: "string \<Rightarrow> string \<Rightarrow> nat \<Rightarrow> nat option" where
  "rfind s sub start =
     (case filter (\<lambda>i. prefix sub (drop i s)) (rev [start..<Suc (length s)]) of
        [] \<Rightarrow> None
      | i # _ \<Rightarrow> Some i)"

text \<open>A literal under \<open>re.IGNORECASE\<close>.\<close>

definition lit_ci :: "string \<Rightarrow> rx list" where
  "lit_ci l = map (\<lambda>c. one (\<lambda>x. to_lower x = to_lower c)) l"

definition xml_declaration_pattern :: "rx list" where
  "xml_declaration_pattern = [Lit ''<?xml'', plus (\<lambda>c. c \<noteq> CHR ''>''), Lit ''?>'']"

definition opening_tag_pattern :: "rx list" where
  "opening_tag_pattern =
     [Lit ''<'', one (\<lambda>c. c \<noteq> CHR ''?''), star (\<lambda>c. c \<noteq> CHR ''>''), Lit ''>'']"

definition information_table_pattern :: "rx list" where
  "information_table_pattern =
     lit_ci ''<informationTable'' @ [star (\<lambda>c. c \<noteq> CHR ''>''), Lit ''>'', star_lazy (\<lambda>c. True)]
       @ lit_ci ''</informationTable>''"

text \<open>
  Method 2. \<open>Inl\<close> is the IndexError of \<open>split()[0]\<close>; \<open>Inr None\<close> means the method
  found nothing and the next one is tried.
\<close>

definition xml_after_declaration :: "string \<Rightarrow> py_error + string option" where
  "xml_after_declaration content =
     (case re_search xml_declaration_pattern content of
        None \<Rightarrow> Inr None
      | Some xml_decl_match \<Rightarrow>
          (let start_index = m_start xml_decl_match
           in case re_search opening_tag_pattern (slice_from content start_index) of
                None \<Rightarrow> Inr None
              | Some opening_tag_match \<Rightarrow>
                  (case py_split (strip_chars ''<>'' (group0 opening_tag_match)) of
                     [] \<Rightarrow> Inl IndexError
                   | tag_name # _ \<Rightarrow>
                       (let closing_tag = ''</'' @ tag_name @ ''>''
                        in case rfind content closing_tag start_index of
                             None \<Rightarrow> Inr None
                           | Some closing_tag_index \<Rightarrow>
                               if start_index < closing_tag_index
                               then Inr (Some (slice content start_index
                                                (closing_tag_index + length closing_tag)))
                               else Inr None))))"

text \<open>Method 3.\<close>

definition xml_information_table :: "string \<Rightarrow> string option" where
  "xml_information_table content =
     (case re_search information_table_pattern content of
        None \<Rightarrow> None
      | Some info_table_match \<Rightarrow> Some (''<XML>'' @ group0 info_table_match @ ''</XML>''))"

definition Form13FParser_extract_xml ::
  "string \<Rightarrow> string option \<times> string option \<times> string option" where
  "Form13FParser_extract_xml content =
     (let accession_number = accession_number_of content;
          conformed_date = conformed_date_of content
      in case xml_between_tags content of
           Some xml_content \<Rightarrow> (Some xml_content, accession_number, conformed_date)
         | None \<Rightarrow>
             (case xml_after_declaration content of
                Inl e \<Rightarrow> (None, None, None)
              | Inr (Some xml_content) \<Rightarrow> (Some xml_content, accession_number, conformed_date)
              | Inr None \<Rightarrow> (xml_information_table content, accession_number, conformed_date)))"
section \<open>Holdings table (parse\_holdings)\<close>

definition ns1 :: string where
  "ns1 = ''http://www.sec.gov/edgar/document/thirteenf/informationtable''"

definition qname :: "string \<Rightarrow> string" where
  "qname local = ''{'' @ ns1 @ ''}'' @ local"

text \<open>All elements below an element, in document order.\<close>

fun descendants :: "xml \<Rightarrow> xml list" where
  "descendants (Element t x cs) = concat (map (\<lambda>c. c # descendants c) cs)"

text \<open>\<open>root.findall('.//ns1:infoTable', namespaces)\<close>\<close>

definition findall_infoTable :: "xml \<Rightarrow> xml list" where
  "findall_infoTable root_element =
     filter (\<lambda>e. tag e = qname ''infoTable'') (descendants root_element)"

text \<open>\<open>e.find('ns1:a/ns1:b', namespaces)\<close>: the first element the path reaches.\<close>

fun find_path :: "string list \<Rightarrow> xml \<Rightarrow> xml option" where
  "find_path [] e = Some e"
| "find_path (p # ps) e =
     first_some (\<lambda>c. if tag c = qname p then find_path ps c else None) (children e)"

text \<open>
  What \<open>x.text if x is not None else pd.NA\<close> can be: \<open>pd.NA\<close> when the element is
  missing, \<open>None\<close> when it has no text, or its text.
\<close>

datatype elem_text = ElemMissing | ElemNone | ElemText string

definition text_at :: "xml \<Rightarrow> string list \<Rightarrow> elem_text" where
  "text_at info_table path =
     (case find_path path info_table of
        None \<Rightarrow> ElemMissing
      | Some x \<Rightarrow> (case text_of x of None \<Rightarrow> ElemNone | Some t \<Rightarrow> ElemText t))"

definition opt_text :: "string option \<Rightarrow> elem_text" where
  "opt_text v = (case v of None \<Rightarrow> ElemNone | Some s \<Rightarrow> ElemText s)"

type_synonym holding_data = "(string \<times> elem_text) list"

definition Form13FParser_holding_data ::
  "string option \<Rightarrow> string option \<Rightarrow> xml \<Rightarrow> holding_data" where
  "Form13FParser_holding_data accession_number conformed_date info_table =
     [(''ACCESSION_NUMBER'', opt_text accession_number),
      (''CONFORMED_DATE'', opt_text conformed_date),
      (''NAME_OF_ISSUER'', text_at info_table [''nameOfIssuer'']),
      (''TITLE_OF_CLASS'', text_at info_table [''titleOfClass'']),
      (''CUSIP'', text_at info_table [''cusip'']),
      (''SHARE_VALUE'', text_at info_table [''value'']),
      (''SHARE_AMOUNT'', text_at info_table [''shrsOrPrnAmt'', ''sshPrnamt'']),
      (''SH_PRN'', text_at info_table [''shrsOrPrnAmt'', ''sshPrnamtType'']),
      (''PUT_CALL'', text_at info_table [''putCall'']),
      (''DISCRETION'', text_at info_table [''investmentDiscretion'']),
      (''SOLE_VOTING_AUTHORITY'', text_at info_table [''votingAuthority'', ''Sole'']),
      (''SHARED_VOTING_AUTHORITY'', text_at info_table [''votingAuthority'', ''Shared'']),
      (''NONE_VOTING_AUTHORITY'', text_at info_table [''votingAuthority'', ''None''])]"

text \<open>The older parser has no \<open>PUT_CALL\<close> column.\<close>

definition SECFilingParser_holding_data ::
  "string option \<Rightarrow> string option \<Rightarrow> xml \<Rightarrow> holding_data" where
  "SECFilingParser_holding_data accession_number conformed_date info_table =
     filter (\<lambda>(col, v). col \<noteq> ''PUT_CALL'')
       (Form13FParser_holding_data accession_number conformed_date info_table)"

definition columns_to_convert :: "string list" where
  "columns_to_convert =
     [''SHARE_VALUE'', ''SHARE_AMOUNT'', ''SOLE_VOTING_AUTHORITY'', ''SHARED_VOTING_AUTHORITY'',
      ''NONE_VOTING_AUTHORITY'']"

text \<open>\<open>astype(str)\<close> on a cell of the parsed data.\<close>

definition astype_str :: "elem_text \<Rightarrow> string" where
  "astype_str v = (case v of ElemMissing \<Rightarrow> ''<NA>'' | ElemNone \<Rightarrow> ''None'' | ElemText s \<Rightarrow> s)"

text \<open>\<open>.str.replace(r'\s+', '', regex=True)\<close> and \<open>.replace('', '0')\<close>\<close>

definition remove_whitespace :: "string \<Rightarrow> string" where
  "remove_whitespace s = filter (\<lambda>c. \<not> is_space c) s"

definition replace_empty :: "string \<Rightarrow> string" where
  "replace_empty s = (if s = [] then ''0'' else s)"

text \<open>
  \<open>astype(pd.Int64Dtype())\<close> on one cell of the column: a float that is a whole number
  of the signed 64-bit range becomes that integer, NaN the missing value; anything else
  raises, as does every cell of a column that \<open>astype(float, errors='ignore')\<close> has left
  as strings.
\<close>

definition Int64_of_cell :: "cell \<Rightarrow> py_error + cell" where
  "Int64_of_cell v =
     (case v of
        Float x \<Rightarrow>
          if x = of_int \<lfloor>x\<rfloor> \<and> - (2 ^ 63) \<le> \<lfloor>x\<rfloor> \<and> \<lfloor>x\<rfloor> < 2 ^ 63
          then Inr (Integer \<lfloor>x\<rfloor>) else Inl TypeError
      | NaN \<Rightarrow> Inr NA
      | Integer i \<Rightarrow> Inr (Integer i)
      | NA \<Rightarrow> Inr NA
      | Str s \<Rightarrow> Inl ValueError
      | _ \<Rightarrow> Inl TypeError)"

fun sequence_sum :: "('e + 'a) list \<Rightarrow> 'e + 'a list" where
  "sequence_sum [] = Inr []"
| "sequence_sum (x # xs) =
     (case x of
        Inl e \<Rightarrow> Inl e
      | Inr v \<Rightarrow> (case sequence_sum xs of Inl e \<Rightarrow> Inl e | Inr vs \<Rightarrow> Inr (v # vs)))"

text \<open>The text of a numeric cell when the conversion to a number starts.\<close>

definition normal_text :: "elem_text \<Rightarrow> string" where
  "normal_text v = replace_empty (remove_whitespace (astype_str v))"

definition convert_numeric_column :: "elem_text list \<Rightarrow> py_error + cell list" where
  "convert_numeric_column col =
     (let strs = map (replace_empty \<circ> remove_whitespace \<circ> astype_str) col;
          floats = astype_float_ignore (map Str strs)
      in sequence_sum (map Int64_of_cell floats))"

definition cell_of_elem :: "elem_text \<Rightarrow> cell" where
  "cell_of_elem v = (case v of ElemMissing \<Rightarrow> NA | ElemNone \<Rightarrow> PyNone | ElemText s \<Rightarrow> Str s)"

definition cell_at :: "holding_data \<Rightarrow> string \<Rightarrow> elem_text" where
  "cell_at d col = (case map_of d col of Some v \<Rightarrow> v | None \<Rightarrow> ElemMissing)"

definition column_of :: "holding_data list \<Rightarrow> string \<Rightarrow> elem_text list" where
  "column_of parsed_data col = map (\<lambda>d. cell_at d col) parsed_data"

text \<open>
  The data frame of the parsed data with the numeric columns converted, or the first
  exception a conversion raises.
\<close>

definition with_column :: "string \<Rightarrow> cell list \<Rightarrow> dataframe \<Rightarrow> dataframe" where
  "with_column col vs df = map (\<lambda>(r, v). map_col col (\<lambda>_. v) r) (zip df vs)"

fun convert_columns :: "string list \<Rightarrow> holding_data list \<Rightarrow> dataframe \<Rightarrow> py_error + dataframe" where
  "convert_columns [] parsed_data df = Inr df"
| "convert_columns (col # cols) parsed_data df =
     (if parsed_data \<noteq> [] \<and> col \<in> set (map fst (hd parsed_data))
      then (case convert_numeric_column (column_of parsed_data col) of
              Inl e \<Rightarrow> Inl e
            | Inr vs \<Rightarrow> convert_columns cols parsed_data (with_column col vs df))
      else convert_columns cols parsed_data df)"

definition holdings_frame :: "holding_data list \<Rightarrow> dataframe" where
  "holdings_frame parsed_data =
     (case convert_columns columns_to_convert parsed_data
             (map (map (\<lambda>(col, v). (col, cell_of_elem v))) parsed_data) of
        Inl e \<Rightarrow> []
      | Inr df \<Rightarrow> df)"

definition Form13FParser_parse_holdings ::
  "library \<Rightarrow> string \<Rightarrow> string option \<Rightarrow> string option \<Rightarrow> dataframe" where
  "Form13FParser_parse_holdings lib xml_data accession_number conformed_date =
     (case fromstring lib xml_data of
        None \<Rightarrow> []
      | Some root_element \<Rightarrow>
          holdings_frame
            (map (Form13FParser_holding_data accession_number conformed_date)
               (findall_infoTable root_element)))"

definition SECFilingParser_parse_holdings ::
  "library \<Rightarrow> string \<Rightarrow> string option \<Rightarrow> string option \<Rightarrow> dataframe" where
  "SECFilingParser_parse_holdings lib xml_data accession_number conformed_date =
     (case fromstring lib xml_data of
        None \<Rightarrow> []
      | Some root_element \<Rightarrow>
          holdings_frame
            (map (SECFilingParser_holding_data accession_number conformed_date)
               (findall_infoTable root_element)))"
section \<open>Storage (core/data\_organizer.py)\<close>

text \<open>
  The files of the organizer: the accession table and the company table (\<open>None\<close> while
  the file does not exist, otherwise the rows written so far) and one holdings file per
  CIK directory and accession number.
\<close>

record store =
  accession_info_file :: "dataframe option"
  company_info_file :: "dataframe option"
  holdings_files :: "string \<times> string \<rightharpoonup> dataframe"

definition empty_store :: store where
  "empty_store = \<lparr>accession_info_file = None, company_info_file = None, holdings_files = Map.empty\<rparr>"

text \<open>\<open>to_csv(mode='a')\<close>: the rows are added after those already in the file.\<close>

definition save_accession_info :: "store \<Rightarrow> dataframe \<Rightarrow> store" where
  "save_accession_info st accession_info_df =
     st\<lparr>accession_info_file :=
          Some (case accession_info_file st of
                  None \<Rightarrow> accession_info_df
                | Some written \<Rightarrow> written @ accession_info_df)\<rparr>"

definition save_company_info :: "library \<Rightarrow> store \<Rightarrow> dataframe \<Rightarrow> py_error + store" where
  "save_company_info lib st company_info_df =
     (case company_info_file st of
        None \<Rightarrow> Inr (st\<lparr>company_info_file := Some company_info_df\<rparr>)
      | Some written \<Rightarrow>
          (let existing_df = read_csv lib written
           in case company_info_df of
                [] \<Rightarrow> Inl KeyError
              | r0 # _ \<Rightarrow>
                  (case get_col r0 ''CIK'' of
                     None \<Rightarrow> Inl KeyError
                   | Some new_cik \<Rightarrow>
                       if new_cik = NA then Inl TypeError
                       else if new_cik \<noteq> NaN
                               \<and> Some new_cik \<in> set (map (\<lambda>r. get_col r ''CIK'') existing_df)
                       then (case loc_assign lib existing_df new_cik r0 of
                               Inl e \<Rightarrow> Inl e
                             | Inr updated \<Rightarrow> Inr (st\<lparr>company_info_file := Some updated\<rparr>))
                       else Inr (st\<lparr>company_info_file := Some (existing_df @ company_info_df)\<rparr>))))"

definition save_holdings :: "store \<Rightarrow> dataframe \<Rightarrow> string \<Rightarrow> string \<Rightarrow> store" where
  "save_holdings st holdings_df cik accession_number =
     st\<lparr>holdings_files := (holdings_files st)((cik, accession_number) \<mapsto> holdings_df)\<rparr>"

text \<open>\<open>int(v)\<close> on a cell and \<open>str(n)\<close> on an integer.\<close>

definition py_int :: "cell \<Rightarrow> py_error + int" where
  "py_int v =
     (case v of
        Float x \<Rightarrow> Inr (if 0 \<le> x then \<lfloor>x\<rfloor> else \<lceil>x\<rceil>)
      | Integer i \<Rightarrow> Inr i
      | Boolean b \<Rightarrow> Inr (if b then 1 else 0)
      | Str s \<Rightarrow> (case py_int_of_string s of Some i \<Rightarrow> Inr i | None \<Rightarrow> Inl ValueError)
      | NaN \<Rightarrow> Inl ValueError
      | Infinity b \<Rightarrow> Inl OverflowError
      | _ \<Rightarrow> Inl TypeError)"

definition digit_char :: "nat \<Rightarrow> char" where
  "digit_char n = ''0123456789'' ! n"

function str_of_nat :: "nat \<Rightarrow> string" where
  "str_of_nat n =
     (if n < 10 then [digit_char n] else str_of_nat (n div 10) @ [digit_char (n mod 10)])"
  by pat_completeness auto
termination
  by (relation "measure id") auto

declare str_of_nat.simps [simp del]

definition py_str :: "int \<Rightarrow> string" where
  "py_str i = (if i < 0 then CHR ''-'' # str_of_nat (nat (- i)) else str_of_nat (nat i))"

text \<open>\<open>str(int(df[col].iloc[0]))\<close>; the empty frame has no column to look up.\<close>

definition first_as_int_str :: "dataframe \<Rightarrow> string \<Rightarrow> py_error + string" where
  "first_as_int_str df col =
     (case df of
        [] \<Rightarrow> Inl KeyError
      | r0 # _ \<Rightarrow>
          (case get_col r0 col of
             None \<Rightarrow> Inl KeyError
           | Some v \<Rightarrow> (case py_int v of Inl e \<Rightarrow> Inl e | Inr i \<Rightarrow> Inr (py_str i))))"

text \<open>
  \<open>process_filing_data\<close> returns the exception it raises, if any, and the store as the
  writes made before it left it.
\<close>

definition process_filing_data ::
  "library \<Rightarrow> store \<Rightarrow> dataframe \<Rightarrow> dataframe \<Rightarrow> dataframe \<Rightarrow> py_error option \<times> store" where
  "process_filing_data lib st accession_info_df company_info_df holdings_df =
     (case first_as_int_str accession_info_df ''CIK'' of
        Inl e \<Rightarrow> (Some e, st)
      | Inr cik \<Rightarrow>
          (case first_as_int_str accession_info_df ''ACCESSION_NUMBER'' of
             Inl e \<Rightarrow> (Some e, st)
           | Inr accession_number \<Rightarrow>
               (let st1 = save_accession_info st accession_info_df
                in case save_company_info lib st1 company_info_df of
                     Inl e \<Rightarrow> (Some e, st1)
                   | Inr st2 \<Rightarrow> (None, save_holdings st2 holdings_df cik accession_number))))"

section \<open>Processing one filing (process\_filing)\<close>

text \<open>
  \<open>if xml_data:\<close> holds for a string that is not empty.
  \<open>Form13FParser.process_filing\<close> catches every exception, so it returns the store only.
\<close>

definition Form13FParser_holdings :: "library \<Rightarrow> string \<Rightarrow> dataframe" where
  "Form13FParser_holdings lib content =
     (let (xml_data, accession_number, conformed_date) = Form13FParser_extract_xml content
      in case xml_data of
           None \<Rightarrow> []
         | Some x \<Rightarrow>
             if x \<noteq> [] then Form13FParser_parse_holdings lib x accession_number conformed_date
             else [])"

definition Form13FParser_process_filing :: "library \<Rightarrow> store \<Rightarrow> string \<Rightarrow> store" where
  "Form13FParser_process_filing lib st content =
     (let company_info_df = parse_company_info lib content;
          accession_info_df = Form13FParser_parse_accession_info lib content;
          holdings_df = Form13FParser_holdings lib content
      in if accession_info_df \<noteq> []
            \<and> ''ACCESSION_NUMBER'' \<in> set (map fst (hd accession_info_df))
         then snd (process_filing_data lib st accession_info_df company_info_df holdings_df)
         else st)"

text \<open>\<open>SECFilingParser.process_filing\<close> saves only under \<open>if xml_data:\<close>.\<close>

definition SECFilingParser_process_filing ::
  "library \<Rightarrow> store \<Rightarrow> string \<Rightarrow> py_error option \<times> store" where
  "SECFilingParser_process_filing lib st content =
     (let company_info_df = SECFilingParser_parse_company_info lib content;
          accession_info_df = SECFilingParser_parse_accession_info lib content;
          (xml_data, accession_number, conformed_date) = SECFilingParser_extract_xml content
      in case xml_data of
           None \<Rightarrow> (None, st)
         | Some x \<Rightarrow>
             if x \<noteq> []
             then process_filing_data lib st accession_info_df company_info_df
                    (SECFilingParser_parse_holdings lib x accession_number conformed_date)
             else (None, st))"
section \<open>Where a label occurs in a text\<close>

definition occurs_at :: "string \<Rightarrow> string \<Rightarrow> nat \<Rightarrow> bool" where
  "occurs_at l s i = prefix l (drop i s)"

definition first_occurrence :: "string \<Rightarrow> string \<Rightarrow> nat \<Rightarrow> bool" where
  "first_occurrence l s n = (occurs_at l s n \<and> list_all (\<lambda>i. \<not> occurs_at l s i) [0..<n])"

definition no_occurrence :: "string \<Rightarrow> string \<Rightarrow> bool" where
  "no_occurrence l s = list_all (\<lambda>i. \<not> occurs_at l s i) [0..<Suc (length s)]"

definition only_occurrence :: "string \<Rightarrow> string \<Rightarrow> nat \<Rightarrow> bool" where
  "only_occurrence l s n =
     (occurs_at l s n \<and> list_all (\<lambda>i. i = n \<or> \<not> occurs_at l s i) [0..<Suc (length s)])"
section \<open>Example inputs\<close>

text \<open>
  A library for the examples: no date is readable, no XML parses, a cell written as a
  digit string is read back from the CSV file as an integer, and the assignment to the
  rows of a CIK raises.
\<close>

definition csv_cell :: "cell \<Rightarrow> cell" where
  "csv_cell v =
     (case v of
        Str s \<Rightarrow> if s \<noteq> [] \<and> list_all is_digit s then Integer (int (nat_of_digits s)) else Str s
      | _ \<Rightarrow> v)"

definition example_library :: library where
  "example_library =
     \<lparr>strptime = (\<lambda>s. None), fromstring = (\<lambda>s. None),
      read_csv = map (map (\<lambda>(col, v). (col, csv_cell v))),
      loc_assign = (\<lambda>existing_df new_cik r. Inl ValueError)\<rparr>"

text \<open>A header with a company name and no line for the state of incorporation.\<close>

definition name_only_header :: string where
  "name_only_header = ''COMPANY CONFORMED NAME:  ACME INC '' @ [CHR 0x0A] @ ''CITY: X''"
text \<open>Headers whose entity id has seven digits, and eleven.\<close>

definition short_cik_header :: string where
  "short_cik_header = ''CENTRAL INDEX KEY:   1234567'' @ [CHR 0x0A]"

definition long_cik_header :: string where
  "long_cik_header = ''CENTRAL INDEX KEY: 12345678901''"
text \<open>
  An information table with one entry, as \<open>ET.fromstring\<close> returns it, with the text of
  its \<open>value\<close> element left open, and a library whose XML parser returns a given tree.
\<close>

definition example_entry :: "string option \<Rightarrow> xml" where
  "example_entry v =
     Element (qname ''infoTable'') None
       [Element (qname ''nameOfIssuer'') (Some ''APPLE INC'') [],
        Element (qname ''cusip'') (Some ''037833100'') [],
        Element (qname ''value'') v [],
        Element (qname ''shrsOrPrnAmt'') None
          [Element (qname ''sshPrnamt'') (Some ''10 000'') [],
           Element (qname ''sshPrnamtType'') (Some ''SH'') []],
        Element (qname ''votingAuthority'') None
          [Element (qname ''Sole'') (Some ''10000'') [],
           Element (qname ''Shared'') (Some ''0'') [],
           Element (qname ''None'') (Some ''0'') []]]"

definition example_table :: "string option \<Rightarrow> xml" where
  "example_table v = Element (qname ''informationTable'') None [example_entry v]"

definition tree_library :: "xml \<Rightarrow> library" where
  "tree_library t = example_library\<lparr>fromstring := (\<lambda>s. Some t)\<rparr>"
text \<open>The rows of the accession table, none while the file does not exist.\<close>

definition accession_rows :: "store \<Rightarrow> dataframe" where
  "accession_rows st = (case accession_info_file st of None \<Rightarrow> [] | Some written \<Rightarrow> written)"

text \<open>The parsed data of one filing: its filing record and its header record.\<close>

definition example_filing_record :: row where
  "example_filing_record =
     [(''CIK'', Float 1234567), (''ACCESSION_NUMBER'', Float 12345624000789),
      (''DOC_TYPE'', Str ''13F-HR'')]"

definition example_header_record :: row where
  "example_header_record =
     [(''CIK'', Str ''0001234567''), (''COMPANY_CONFORMED_NAME'', Str ''TEST COMPANY INC'')]"
text \<open>A filing with its header lines and no XML at all.\<close>

definition header_without_xml :: string where
  "header_without_xml =
     ''CENTRAL INDEX KEY: 0001234567'' @ [CHR 0x0A] @
     ''ACCESSION NUMBER: 0000123456-24-000789'' @ [CHR 0x0A]"

(*THEOREMS*)

section \<open>Token bucket: invariant and results\<close>

























section \<open>Form index: columns\<close>

lemma find_separator_first:
  assumes "\<forall>l \<in> set pre. set (strip l) \<noteq> {CHR ''-''}" "set (strip sep) = {CHR ''-''}"
  shows "find_separator (pre @ sep # rows) = Some (length pre)"
  using assms by (induction pre) auto

text \<open>
  Claim C8. When the response has status 200 and its lines are some lines without a
  separator, then a line of dashes, then the data lines, the result has one record per
  data line, in order, and the record of a line holds the whitespace-stripped slices
  \<open>[0,12)\<close>, \<open>[12,74)\<close>, \<open>[74,86)\<close>, \<open>[86,98)\<close> and \<open>[98,end)\<close> of the line
  as form type, name, entity id, filing date and filename. Offsets count the characters
  of the Python string.
\<close>

theorem C8_index_columns:
  assumes "status_code r = 200"
    and "splitlines (resp_text r) = pre @ sep # rows"
    and "\<forall>l \<in> set pre. set (strip l) \<noteq> {CHR ''-''}"
    and "set (strip sep) = {CHR ''-''}"
  shows "parse_form_idx r =
           map (\<lambda>line. \<lparr>Form_Type = strip (take 12 line),
                         Name = strip (take 62 (drop 12 line)),
                         CIK = strip (take 12 (drop 74 line)),
                         Date_Filed = strip (take 12 (drop 86 line)),
                         Filename = strip (drop 98 line)\<rparr>) rows
         \<and> length (parse_form_idx r) = length rows"
  using assms find_separator_first[OF assms(3,4), of rows]
  by (simp add: parse_form_idx_def Let_def index_entry_of_def slice_def slice_from_def)

theorem C8_index_columns_witness:
  "splitlines example_index =
     [''Form Type   Company Name''] @ ''------------------------'' #
     [''13F-HR      BERKSHIRE HATHAWAY INC                                        1067983     2024-02-14  edgar/data/1067983/0000950123-24-002518.txt'',
      ''13F-HR/A    TEST COMPANY INC                                              1234567     2024-02-15  edgar/data/1234567/0000123456-24-000789.txt   '']
   \<and> list_all (\<lambda>l. set (strip l) \<noteq> {CHR ''-''}) [''Form Type   Company Name'']
   \<and> set (strip ''------------------------'') = {CHR ''-''}
   \<and> parse_form_idx \<lparr>status_code = 200, resp_text = example_index\<rparr> =
       [\<lparr>Form_Type = ''13F-HR'', Name = ''BERKSHIRE HATHAWAY INC'', CIK = ''1067983'',
         Date_Filed = ''2024-02-14'', Filename = ''edgar/data/1067983/0000950123-24-002518.txt''\<rparr>,
        \<lparr>Form_Type = ''13F-HR/A'', Name = ''TEST COMPANY INC'', CIK = ''1234567'',
         Date_Filed = ''2024-02-15'', Filename = ''edgar/data/1234567/0000123456-24-000789.txt''\<rparr>]"
proof -
  have sp: "splitlines example_index =
     [''Form Type   Company Name''] @ ''------------------------'' #
     [''13F-HR      BERKSHIRE HATHAWAY INC                                        1067983     2024-02-14  edgar/data/1067983/0000950123-24-002518.txt'',
      ''13F-HR/A    TEST COMPANY INC                                              1234567     2024-02-15  edgar/data/1234567/0000123456-24-000789.txt   '']"
    by code_simp
  have pre: "\<forall>l \<in> set [''Form Type   Company Name'']. set (strip l) \<noteq> {CHR ''-''}"
    by (simp add: strip_def is_space_def)
  have sep: "set (strip ''------------------------'') = {CHR ''-''}"
    by (simp add: strip_def is_space_def)
  have st: "status_code \<lparr>status_code = 200, resp_text = example_index\<rparr> = 200" by simp
  have sp': "splitlines (resp_text \<lparr>status_code = 200, resp_text = example_index\<rparr>) =
     [''Form Type   Company Name''] @ ''------------------------'' #
     [''13F-HR      BERKSHIRE HATHAWAY INC                                        1067983     2024-02-14  edgar/data/1067983/0000950123-24-002518.txt'',
      ''13F-HR/A    TEST COMPANY INC                                              1234567     2024-02-15  edgar/data/1234567/0000123456-24-000789.txt   '']"
    using sp by simp
  have "parse_form_idx \<lparr>status_code = 200, resp_text = example_index\<rparr> =
       [\<lparr>Form_Type = ''13F-HR'', Name = ''BERKSHIRE HATHAWAY INC'', CIK = ''1067983'',
         Date_Filed = ''2024-02-14'', Filename = ''edgar/data/1067983/0000950123-24-002518.txt''\<rparr>,
        \<lparr>Form_Type = ''13F-HR/A'', Name = ''TEST COMPANY INC'', CIK = ''1234567'',
         Date_Filed = ''2024-02-15'', Filename = ''edgar/data/1234567/0000123456-24-000789.txt''\<rparr>]"
    using C8_index_columns [OF st sp' pre sep] by (simp add: strip_def is_space_def)
  then show ?thesis using sp pre sep by simp
qed

section \<open>Facts about searching\<close>

lemma first_some_None: "(\<And>x. x \<in> set xs \<Longrightarrow> f x = None) \<Longrightarrow> first_some f xs = None"
  by (induction xs) auto

lemma first_some_hd: "f x = Some y \<Longrightarrow> first_some f (x # xs) = Some y"
  by simp

lemma rev_upt_Suc: "lo \<le> n \<Longrightarrow> rev [lo..<Suc n] = n # rev [lo..<n]"
  by simp

lemma rep_counts_greedy:
  "lo \<le> length (takeWhile p s) \<Longrightarrow>
   rep_counts p lo None True s = length (takeWhile p s) # rev [lo..<length (takeWhile p s)]"
  by (simp add: rep_counts_def Let_def)

lemma rep_greedy_first:
  assumes "lo \<le> length (takeWhile p s)" "rx_match items (drop (length (takeWhile p s)) s) cap = Some y"
  shows "rx_match (Rep p lo None True # items) s cap = Some y"
  using assms by (simp add: rep_counts_greedy)

lemma takeWhile_run:
  assumes "\<forall>c \<in> set v. p c" "rest = [] \<or> \<not> p (hd rest)"
  shows "takeWhile p (v @ rest) = v"
  using assms by (cases rest) (auto simp: takeWhile_append2)

lemma rx_match_Lit_fail: "\<not> prefix l s \<Longrightarrow> rx_match (Lit l # items) s cap = None"
  by simp

lemma search_from_None:
  "(\<And>i. i \<le> length s \<Longrightarrow> rx_match items (drop i s) NoGroup = None) \<Longrightarrow> search_from items s pos = None"
proof (induction s arbitrary: pos)
  case Nil
  then show ?case by (simp add: match_at_def)
next
  case (Cons c cs)
  have "rx_match items (drop 0 (c # cs)) NoGroup = None" using Cons.prems[of 0] by simp
  then have h: "match_at items (c # cs) pos = None" by (simp add: match_at_def)
  have "search_from items cs (Suc pos) = None"
  proof (rule Cons.IH)
    fix i assume "i \<le> length cs"
    then show "rx_match items (drop i cs) NoGroup = None" using Cons.prems[of "Suc i"] by simp
  qed
  then show ?case using h by simp
qed

lemma search_from_first:
  assumes "n \<le> length s" "match_at items (drop n s) (pos + n) = Some m"
    and "\<And>i. i < n \<Longrightarrow> rx_match items (drop i s) NoGroup = None"
  shows "search_from items s pos = Some m"
  using assms
proof (induction n arbitrary: s pos)
  case 0
  then show ?case by (cases s) auto
next
  case (Suc n)
  then obtain c cs where s: "s = c # cs" by (cases s) auto
  have "rx_match items (drop 0 s) NoGroup = None" using Suc.prems(3)[of 0] by simp
  then have h: "match_at items (c # cs) pos = None" by (simp add: match_at_def s)
  have "search_from items cs (Suc pos) = Some m"
  proof (rule Suc.IH)
    show "n \<le> length cs" using Suc.prems(1) s by simp
    show "match_at items (drop n cs) (Suc pos + n) = Some m" using Suc.prems(2) s by simp
    fix i assume "i < n"
    then show "rx_match items (drop i cs) NoGroup = None" using Suc.prems(3)[of "Suc i"] s by simp
  qed
  then show ?case using h s by simp
qed

lemma labelled_match:
  assumes "ws \<noteq> []" "\<forall>c \<in> set ws. is_space c" "v \<noteq> []" "\<forall>c \<in> set v. p c"
    and "\<not> is_space (hd v)" "rest = [] \<or> \<not> p (hd rest)"
  shows "rx_match (labelled l p) (l @ ws @ v @ rest) cap = Some (Closed v, rest)"
proof -
  have tw: "takeWhile is_space (ws @ v @ rest) = ws"
    using assms(2,3,5) by (intro takeWhile_run) (auto simp: hd_append)
  have tv: "takeWhile p (v @ rest) = v" using assms(4,6) by (rule takeWhile_run)
  have inner: "rx_match [plus p, GroupClose] (v @ rest) (Opened (v @ rest)) = Some (Closed v, rest)"
    by (rule rep_greedy_first) (use assms(3) tv in \<open>auto simp: Suc_le_eq\<close>)
  have "rx_match [plus is_space, GroupOpen, plus p, GroupClose] (ws @ v @ rest) cap = Some (Closed v, rest)"
    by (rule rep_greedy_first) (use assms(1) tw inner in \<open>auto simp: Suc_le_eq\<close>)
  then show ?thesis by (simp add: labelled_def)
qed

lemma first_occurrenceD:
  "first_occurrence l s n \<Longrightarrow> i < n \<Longrightarrow> \<not> prefix l (drop i s)"
  by (auto simp: first_occurrence_def list_all_iff occurs_at_def)

lemma no_occurrenceD:
  "no_occurrence l s \<Longrightarrow> \<not> prefix l (drop i s) \<or> l = []"
  by (cases "i \<le> length s") (auto simp: no_occurrence_def list_all_iff occurs_at_def)

lemma re_search_labelled:
  assumes "content = pre @ l @ ws @ v @ rest" "first_occurrence l content (length pre)"
    and "ws \<noteq> []" "\<forall>c \<in> set ws. is_space c" "v \<noteq> []" "\<forall>c \<in> set v. p c"
    and "\<not> is_space (hd v)" "rest = [] \<or> \<not> p (hd rest)"
  shows "\<exists>m. re_search (labelled l p) content = Some m \<and> group1 m = Some v"
proof -
  have d: "drop (length pre) content = l @ ws @ v @ rest" using assms(1) by simp
  have m: "rx_match (labelled l p) (drop (length pre) content) NoGroup = Some (Closed v, rest)"
    unfolding d using assms(3-8) by (rule labelled_match)
  obtain m where mm: "match_at (labelled l p) (drop (length pre) content) (0 + length pre) = Some m"
    "group1 m = Some v"
    using m by (simp add: match_at_def Let_def)
  have "search_from (labelled l p) content 0 = Some m"
  proof (rule search_from_first[OF _ mm(1)])
    show "length pre \<le> length content" using assms(1) by simp
    fix i assume "i < length pre"
    then have "\<not> prefix l (drop i content)" using assms(2) first_occurrenceD by blast
    then show "rx_match (labelled l p) (drop i content) NoGroup = None"
      by (simp add: labelled_def)
  qed
  then show ?thesis using mm(2) by (auto simp: re_search_def)
qed

lemma re_search_no_label:
  assumes "no_occurrence l content" "l \<noteq> []"
  shows "re_search (Lit l # items) content = None"
  unfolding re_search_def
  by (rule search_from_None) (use assms no_occurrenceD in \<open>auto\<close>)

section \<open>Header records\<close>

lemma company_row:
  "parse_company_info lib content = [r] \<Longrightarrow> map fst r = map fst company_patterns"
  by (auto simp: parse_company_info_def Let_def extract_all_def map_col_def company_patterns_def)

text \<open>
  Claim C9. For every text, the header record of \<open>parse_company_info\<close> (of either
  parser) has each mail-address field equal to the business-address field of the same
  kind: street 1, street 2, city, state and zip. Both are the first match of the same
  pattern in the same text.
\<close>

theorem C9_mail_equals_business:
  "(\<exists>r. parse_company_info lib content = [r]
      \<and> get_col r ''MAIL_ADRESS_STREET_1'' = Some (extract_field (labelled ''STREET 1:'' dot) NA content)
      \<and> get_col r ''BUSINESS_ADRESS_STREET_1'' = get_col r ''MAIL_ADRESS_STREET_1''
      \<and> get_col r ''MAIL_ADRESS_STREET_2'' = Some (extract_field (labelled ''STREET 2:'' dot) NA content)
      \<and> get_col r ''BUSINESS_ADRESS_STREET_2'' = get_col r ''MAIL_ADRESS_STREET_2''
      \<and> get_col r ''MAIL_ADRESS_CITY'' = Some (extract_field (labelled ''CITY:'' is_letter) NA content)
      \<and> get_col r ''BUSINESS_ADRESS_CITY'' = get_col r ''MAIL_ADRESS_CITY''
      \<and> get_col r ''MAIL_ADRESS_STATE'' = Some (extract_field (labelled ''STATE:'' is_upper_AZ) NA content)
      \<and> get_col r ''BUSINESS_ADRESS_STATE'' = get_col r ''MAIL_ADRESS_STATE''
      \<and> get_col r ''MAIL_ADRESS_ZIP'' = Some (extract_field (labelled ''ZIP:'' is_digit) NA content)
      \<and> get_col r ''BUSINESS_ADRESS_ZIP'' = get_col r ''MAIL_ADRESS_ZIP'')
   \<and> (\<exists>r. SECFilingParser_parse_company_info lib content = [r]
      \<and> get_col r ''MAIL_ADRESS_STREET_1'' = Some (search_field (labelled ''STREET 1:'' dot) True content)
      \<and> get_col r ''BUSINESS_ADRESS_STREET_1'' = get_col r ''MAIL_ADRESS_STREET_1''
      \<and> get_col r ''MAIL_ADRESS_STREET_2'' = Some (search_field (labelled ''STREET 2:'' dot) True content)
      \<and> get_col r ''BUSINESS_ADRESS_STREET_2'' = get_col r ''MAIL_ADRESS_STREET_2''
      \<and> get_col r ''MAIL_ADRESS_CITY'' = Some (search_field (labelled ''CITY:'' is_letter) False content)
      \<and> get_col r ''BUSINESS_ADRESS_CITY'' = get_col r ''MAIL_ADRESS_CITY''
      \<and> get_col r ''MAIL_ADRESS_STATE'' = Some (search_field (labelled ''STATE:'' is_upper_AZ) False content)
      \<and> get_col r ''BUSINESS_ADRESS_STATE'' = get_col r ''MAIL_ADRESS_STATE''
      \<and> get_col r ''MAIL_ADRESS_ZIP'' = Some (search_field (labelled ''ZIP:'' is_digit) False content)
      \<and> get_col r ''BUSINESS_ADRESS_ZIP'' = get_col r ''MAIL_ADRESS_ZIP'')"
  by (simp add: parse_company_info_def SECFilingParser_parse_company_info_def Let_def
      extract_all_def search_all_def map_col_def get_col_def company_patterns_def
      SECFilingParser_company_fields_def)

lemma extract_field_absent:
  "re_search pattern content = None \<Longrightarrow> extract_field pattern NA content = NA"
  by (simp add: extract_field_def)

lemma search_field_absent:
  "re_search pattern content = None \<Longrightarrow> search_field pattern b content = NA"
  by (simp add: search_field_def)

lemma company_fields_own_pattern:
  "\<exists>r. parse_company_info lib content = [r]
     \<and> map fst r = map fst company_patterns
     \<and> (\<forall>(field, pattern, dflt) \<in> set company_patterns.
          get_col r field =
            Some (if field = ''DATE'' \<or> field = ''DATE_OF_NAME_CHANGE''
                  then to_datetime lib (extract_field pattern NA content)
                  else extract_field pattern NA content))"
  by (simp add: parse_company_info_def Let_def extract_all_def map_col_def get_col_def
      company_patterns_def)

lemma SEC_company_fields_own_pattern:
  "\<exists>r. SECFilingParser_parse_company_info lib content = [r]
     \<and> map fst r = map fst SECFilingParser_company_fields
     \<and> (\<forall>(field, pattern, stripped) \<in> set SECFilingParser_company_fields.
          get_col r field =
            Some (if field = ''DATE'' \<or> field = ''DATE_OF_NAME_CHANGE''
                  then to_datetime lib (search_field pattern stripped content)
                  else search_field pattern stripped content))"
  by (simp add: SECFilingParser_parse_company_info_def Let_def search_all_def map_col_def get_col_def
      SECFilingParser_company_fields_def)

lemma name_without_state:
  assumes "content = pre @ ''COMPANY CONFORMED NAME:'' @ ws @ name @ rest"
    and "first_occurrence ''COMPANY CONFORMED NAME:'' content (length pre)"
    and "ws \<noteq> []" "\<forall>c \<in> set ws. is_space c"
    and "name \<noteq> []" "\<forall>c \<in> set name. c \<noteq> CHR 0x0A" "\<not> is_space (hd name)"
    and "rest = [] \<or> hd rest = CHR 0x0A"
    and "no_occurrence ''STATE OF INCORPORATION:'' content"
  shows "extract_field (labelled ''COMPANY CONFORMED NAME:'' dot) NA content = Str (strip name)"
    and "extract_field (labelled ''STATE OF INCORPORATION:'' is_upper_AZ) NA content = NA"
    and "search_field (labelled ''COMPANY CONFORMED NAME:'' dot) True content = Str (strip name)"
    and "search_field (labelled ''STATE OF INCORPORATION:'' is_upper_AZ) False content = NA"
proof -
  have "\<exists>m. re_search (labelled ''COMPANY CONFORMED NAME:'' dot) content = Some m \<and> group1 m = Some name"
    by (rule re_search_labelled[OF assms(1,2,3,4,5)]) (use assms(6,7,8) in \<open>auto simp: dot_def\<close>)
  then show "extract_field (labelled ''COMPANY CONFORMED NAME:'' dot) NA content = Str (strip name)"
    "search_field (labelled ''COMPANY CONFORMED NAME:'' dot) True content = Str (strip name)"
    by (auto simp: extract_field_def search_field_def)
  have "re_search (labelled ''STATE OF INCORPORATION:'' is_upper_AZ) content = None"
    unfolding labelled_def by (rule re_search_no_label[OF assms(9)]) simp
  then show "extract_field (labelled ''STATE OF INCORPORATION:'' is_upper_AZ) NA content = NA"
    "search_field (labelled ''STATE OF INCORPORATION:'' is_upper_AZ) False content = NA"
    by (simp_all add: extract_field_def search_field_def)
qed

lemma company_name_state_cols:
  "\<exists>r. parse_company_info lib content = [r]
     \<and> get_col r ''COMPANY_CONFORMED_NAME'' = Some (extract_field (labelled ''COMPANY CONFORMED NAME:'' dot) NA content)
     \<and> get_col r ''STATE_INC'' = Some (extract_field (labelled ''STATE OF INCORPORATION:'' is_upper_AZ) NA content)"
  by (simp add: parse_company_info_def Let_def extract_all_def map_col_def get_col_def
      company_patterns_def)

lemma SEC_company_name_state_cols:
  "\<exists>r. SECFilingParser_parse_company_info lib content = [r]
     \<and> get_col r ''COMPANY_CONFORMED_NAME'' = Some (search_field (labelled ''COMPANY CONFORMED NAME:'' dot) True content)
     \<and> get_col r ''STATE_INC'' = Some (search_field (labelled ''STATE OF INCORPORATION:'' is_upper_AZ) False content)"
  by (simp add: SECFilingParser_parse_company_info_def Let_def search_all_def map_col_def get_col_def
      SECFilingParser_company_fields_def)

text \<open>
  Claim C6. For every text, \<open>parse_company_info\<close> (of either parser) returns one
  record that has every field of the table, and the value of each field is computed from
  the search of that field's own pattern in the text alone (the two date fields then
  pass through the date conversion); a field whose pattern has no match is \<open>NA\<close>. In
  particular, when the text has a \<open>COMPANY CONFORMED NAME:\<close> label followed by
  whitespace and a name up to the end of the line, and no \<open>STATE OF INCORPORATION:\<close>
  label, the record holds the stripped name and an absent state of incorporation.
\<close>

theorem C6_fields_independent:
  "(\<exists>r. parse_company_info lib content = [r]
      \<and> map fst r = map fst company_patterns
      \<and> (\<forall>(field, pattern, dflt) \<in> set company_patterns.
           get_col r field =
             Some (if field = ''DATE'' \<or> field = ''DATE_OF_NAME_CHANGE''
                   then to_datetime lib (extract_field pattern NA content)
                   else extract_field pattern NA content)))
   \<and> (\<exists>r. SECFilingParser_parse_company_info lib content = [r]
      \<and> map fst r = map fst SECFilingParser_company_fields
      \<and> (\<forall>(field, pattern, stripped) \<in> set SECFilingParser_company_fields.
           get_col r field =
             Some (if field = ''DATE'' \<or> field = ''DATE_OF_NAME_CHANGE''
                   then to_datetime lib (search_field pattern stripped content)
                   else search_field pattern stripped content)))
   \<and> (re_search pattern content = None \<longrightarrow>
        extract_field pattern NA content = NA \<and> search_field pattern stripped content = NA)
   \<and> (content = pre @ ''COMPANY CONFORMED NAME:'' @ ws @ name @ rest
        \<and> first_occurrence ''COMPANY CONFORMED NAME:'' content (length pre)
        \<and> ws \<noteq> [] \<and> (\<forall>c \<in> set ws. is_space c)
        \<and> name \<noteq> [] \<and> (\<forall>c \<in> set name. c \<noteq> CHR 0x0A) \<and> \<not> is_space (hd name)
        \<and> (rest = [] \<or> hd rest = CHR 0x0A)
        \<and> no_occurrence ''STATE OF INCORPORATION:'' content
      \<longrightarrow> (\<exists>r. parse_company_info lib content = [r]
             \<and> get_col r ''COMPANY_CONFORMED_NAME'' = Some (Str (strip name))
             \<and> get_col r ''STATE_INC'' = Some NA)
        \<and> (\<exists>r. SECFilingParser_parse_company_info lib content = [r]
             \<and> get_col r ''COMPANY_CONFORMED_NAME'' = Some (Str (strip name))
             \<and> get_col r ''STATE_INC'' = Some NA))"
proof (intro conjI impI)
  show "\<exists>r. parse_company_info lib content = [r]
      \<and> map fst r = map fst company_patterns
      \<and> (\<forall>(field, pattern, dflt) \<in> set company_patterns.
           get_col r field =
             Some (if field = ''DATE'' \<or> field = ''DATE_OF_NAME_CHANGE''
                   then to_datetime lib (extract_field pattern NA content)
                   else extract_field pattern NA content))"
    by (rule company_fields_own_pattern)
  show "\<exists>r. SECFilingParser_parse_company_info lib content = [r]
      \<and> map fst r = map fst SECFilingParser_company_fields
      \<and> (\<forall>(field, pattern, stripped) \<in> set SECFilingParser_company_fields.
           get_col r field =
             Some (if field = ''DATE'' \<or> field = ''DATE_OF_NAME_CHANGE''
                   then to_datetime lib (search_field pattern stripped content)
                   else search_field pattern stripped content))"
    by (rule SEC_company_fields_own_pattern)
next
  assume "re_search pattern content = None"
  then show "extract_field pattern NA content = NA" by (rule extract_field_absent)
next
  assume "re_search pattern content = None"
  then show "search_field pattern stripped content = NA" by (rule search_field_absent)
next
  assume h: "content = pre @ ''COMPANY CONFORMED NAME:'' @ ws @ name @ rest
        \<and> first_occurrence ''COMPANY CONFORMED NAME:'' content (length pre)
        \<and> ws \<noteq> [] \<and> (\<forall>c \<in> set ws. is_space c)
        \<and> name \<noteq> [] \<and> (\<forall>c \<in> set name. c \<noteq> CHR 0x0A) \<and> \<not> is_space (hd name)
        \<and> (rest = [] \<or> hd rest = CHR 0x0A)
        \<and> no_occurrence ''STATE OF INCORPORATION:'' content"
  have v: "extract_field (labelled ''COMPANY CONFORMED NAME:'' dot) NA content = Str (strip name)"
    "extract_field (labelled ''STATE OF INCORPORATION:'' is_upper_AZ) NA content = NA"
    using name_without_state(1,2)[of content pre ws name rest] h by blast+
  show "\<exists>r. parse_company_info lib content = [r]
             \<and> get_col r ''COMPANY_CONFORMED_NAME'' = Some (Str (strip name))
             \<and> get_col r ''STATE_INC'' = Some NA"
    using company_name_state_cols[of lib content] v by simp
next
  assume h: "content = pre @ ''COMPANY CONFORMED NAME:'' @ ws @ name @ rest
        \<and> first_occurrence ''COMPANY CONFORMED NAME:'' content (length pre)
        \<and> ws \<noteq> [] \<and> (\<forall>c \<in> set ws. is_space c)
        \<and> name \<noteq> [] \<and> (\<forall>c \<in> set name. c \<noteq> CHR 0x0A) \<and> \<not> is_space (hd name)
        \<and> (rest = [] \<or> hd rest = CHR 0x0A)
        \<and> no_occurrence ''STATE OF INCORPORATION:'' content"
  have v: "search_field (labelled ''COMPANY CONFORMED NAME:'' dot) True content = Str (strip name)"
    "search_field (labelled ''STATE OF INCORPORATION:'' is_upper_AZ) False content = NA"
    using name_without_state(3,4)[of content pre ws name rest] h by blast+
  show "\<exists>r. SECFilingParser_parse_company_info lib content = [r]
             \<and> get_col r ''COMPANY_CONFORMED_NAME'' = Some (Str (strip name))
             \<and> get_col r ''STATE_INC'' = Some NA"
    using SEC_company_name_state_cols[of lib content] v by simp
qed

theorem C6_fields_independent_witness:
  "name_only_header = [] @ ''COMPANY CONFORMED NAME:'' @ ''  '' @ ''ACME INC '' @ (CHR 0x0A # ''CITY: X'')
   \<and> first_occurrence ''COMPANY CONFORMED NAME:'' name_only_header (length ([] :: string))
   \<and> list_all is_space ''  ''
   \<and> list_all (\<lambda>c. c \<noteq> CHR 0x0A) ''ACME INC '' \<and> \<not> is_space (hd ''ACME INC '')
   \<and> no_occurrence ''STATE OF INCORPORATION:'' name_only_header
   \<and> re_search (labelled ''STATE OF INCORPORATION:'' is_upper_AZ) name_only_header = None
   \<and> (\<exists>r. parse_company_info example_library name_only_header = [r]
        \<and> get_col r ''COMPANY_CONFORMED_NAME'' = Some (Str ''ACME INC'')
        \<and> get_col r ''STATE_INC'' = Some NA)
   \<and> (\<exists>r. SECFilingParser_parse_company_info example_library name_only_header = [r]
        \<and> get_col r ''COMPANY_CONFORMED_NAME'' = Some (Str ''ACME INC'')
        \<and> get_col r ''STATE_INC'' = Some NA)"
proof -
  have c: "name_only_header = [] @ ''COMPANY CONFORMED NAME:'' @ ''  '' @ ''ACME INC '' @ (CHR 0x0A # ''CITY: X'')"
    by (simp add: name_only_header_def)
  have f: "first_occurrence ''COMPANY CONFORMED NAME:'' name_only_header (length ([] :: string))"
    by (simp add: first_occurrence_def occurs_at_def name_only_header_def)
  have w: "list_all is_space ''  ''" by (simp add: is_space_def)
  have n: "list_all (\<lambda>c. c \<noteq> CHR 0x0A) ''ACME INC ''" "\<not> is_space (hd ''ACME INC '')"
    by (simp_all add: is_space_def)
  have no: "no_occurrence ''STATE OF INCORPORATION:'' name_only_header"
    by code_simp
  have st: "strip ''ACME INC '' = ''ACME INC''" by (simp add: strip_def is_space_def)
  have rs: "re_search (labelled ''STATE OF INCORPORATION:'' is_upper_AZ) name_only_header = None"
    unfolding labelled_def by (rule re_search_no_label[OF no]) simp
  have hyp: "name_only_header = [] @ ''COMPANY CONFORMED NAME:'' @ ''  '' @ ''ACME INC '' @ (CHR 0x0A # ''CITY: X'')
        \<and> first_occurrence ''COMPANY CONFORMED NAME:'' name_only_header (length ([] :: string))
        \<and> ''  '' \<noteq> [] \<and> (\<forall>c \<in> set ''  ''. is_space c)
        \<and> ''ACME INC '' \<noteq> [] \<and> (\<forall>c \<in> set ''ACME INC ''. c \<noteq> CHR 0x0A) \<and> \<not> is_space (hd ''ACME INC '')
        \<and> (CHR 0x0A # ''CITY: X'' = [] \<or> hd (CHR 0x0A # ''CITY: X'') = CHR 0x0A)
        \<and> no_occurrence ''STATE OF INCORPORATION:'' name_only_header"
    using c f w n no by (simp add: list_all_iff)
  show ?thesis
    using C6_fields_independent [of example_library name_only_header
        "labelled ''STATE OF INCORPORATION:'' is_upper_AZ" False "[]" "''  ''" "''ACME INC ''"
        "CHR 0x0A # ''CITY: X''"] hyp c f w n no rs st
    by simp
qed

section \<open>The entity id in the two extraction paths\<close>

lemma space_not_digit: "is_space c \<Longrightarrow> \<not> is_digit c"
  by (auto simp: is_space_def is_digit_def Let_def)

lemma digit_not_upper: "is_digit c \<Longrightarrow> \<not> is_upper_AZ c"
  by (auto simp: is_upper_AZ_def is_digit_def Let_def)

lemma strip_id:
  assumes "s \<noteq> []" "\<not> is_space (hd s)" "\<not> is_space (last s)"
  shows "strip s = s"
proof -
  have a: "dropWhile is_space s = s" using assms(1,2) by (cases s) auto
  have "rev s \<noteq> []" "\<not> is_space (hd (rev s))" using assms(1,3) by (simp_all add: hd_rev)
  then have "dropWhile is_space (rev s) = rev s" by (cases "rev s") auto
  then show ?thesis using a by (simp add: strip_def)
qed

lemma strip_digits:
  assumes "d \<noteq> []" "\<forall>c \<in> set d. is_digit c"
  shows "strip d = d"
proof (rule strip_id[OF assms(1)])
  show "\<not> is_space (hd d)" using assms space_not_digit by (metis hd_in_set)
  show "\<not> is_space (last d)" using assms space_not_digit by (metis last_in_set)
qed

lemma digit_not_underscore: "is_digit c \<Longrightarrow> c \<noteq> CHR ''_''"
  by (auto simp: is_digit_def)

lemma digitpart_digits: "\<forall>c \<in> set d. is_digit c \<Longrightarrow> digitpart d = (d, [])"
proof (induction d)
  case Nil
  then show ?case by simp
next
  case (Cons c cs)
  then have ih: "digitpart cs = (cs, [])" by simp
  show ?case
  proof (cases cs)
    case Nil
    then show ?thesis using Cons.prems by simp
  next
    case c1: (Cons u us)
    have un: "u \<noteq> CHR ''_''" using Cons.prems c1 digit_not_underscore by simp
    show ?thesis
    proof (cases us)
      case Nil
      then show ?thesis using Cons.prems c1 ih by simp
    next
      case c2: (Cons x xs)
      have "digitpart (c # u # x # xs) = (let (y, r) = digitpart (u # x # xs) in (c # y, r))"
        using Cons.prems un by simp
      then show ?thesis using ih c1 c2 by simp
    qed
  qed
qed

lemma take_sign_digit: "d \<noteq> [] \<Longrightarrow> is_digit (hd d) \<Longrightarrow> take_sign d = (False, d)"
  by (cases d) (auto simp: take_sign_def is_digit_def)

lemma lower_digits_not_word:
  assumes "d \<noteq> []" "is_digit (hd d)"
  shows "map to_lower d \<noteq> ''inf''" "map to_lower d \<noteq> ''infinity''" "map to_lower d \<noteq> ''nan''"
  using assms by (cases d; auto simp: to_lower_def digit_not_upper is_digit_def)+

lemma bit_length_le: "n < 2 ^ k \<Longrightarrow> bit_length n \<le> k"
proof (induction k arbitrary: n)
  case 0
  then show ?case by (simp add: bit_length.simps)
next
  case (Suc k)
  show ?case
  proof (cases "n = 0")
    case True
    then show ?thesis by (simp add: bit_length.simps)
  next
    case False
    have "n div 2 < 2 ^ k" using Suc.prems by simp
    then have "bit_length (n div 2) \<le> k" by (rule Suc.IH)
    then show ?thesis using False by (subst bit_length.simps) simp
  qed
qed

lemma bit_length_pos: "0 < n \<Longrightarrow> 0 < bit_length n"
  by (subst bit_length.simps) simp

lemma round_half_even_int: "round_half_even (of_int k) = k"
  by (simp add: round_half_even_def)

lemma nearest_double_nat:
  assumes "n < 2 ^ 53"
  shows "nearest_double False (real n) = Float (real n)"
proof (cases "n = 0")
  case True
  then show ?thesis by (simp add: nearest_double_def)
next
  case False
  then have pos: "0 < n" by simp
  define j where "j = 53 - bit_length n"
  have b: "0 < bit_length n" "bit_length n \<le> 53"
    using pos assms bit_length_pos bit_length_le by auto
  have e: "binary_exponent (real n) = int (bit_length n) - 1"
    using pos by (simp add: binary_exponent_def)
  have s: "max (binary_exponent (real n) - 52) (- 1074) = - int j"
    using b e by (simp add: j_def)
  have p: "pow2 (- int j) = 1 / 2 ^ j"
    by (simp add: pow2_def)
  have q: "real n / pow2 (- int j) = of_int (int (n * 2 ^ j))"
    unfolding p by simp
  have m: "round_half_even (real n / pow2 (- int j)) = int (n * 2 ^ j)"
    unfolding q by (rule round_half_even_int)
  have y: "of_int (int (n * 2 ^ j)) * pow2 (- int j) = real n"
    unfolding p by simp
  have small: "\<not> (2 :: real) ^ 1024 \<le> real n"
  proof -
    have "real n < 2 ^ 53" using assms by (metis of_nat_less_iff of_nat_numeral of_nat_power)
    also have "(2 :: real) ^ 53 \<le> 2 ^ 1024" by (rule power_increasing) simp_all
    finally show ?thesis by simp
  qed
  show ?thesis
    using pos small unfolding nearest_double_def Let_def s m y by (simp add: signed_def)
qed

lemma nat_of_digits_snoc:
  "nat_of_digits (ds @ [c]) = 10 * nat_of_digits ds + (of_char c - 48)"
  by (simp add: nat_of_digits_def)

lemma nat_of_digits_bound:
  "\<forall>c \<in> set ds. is_digit c \<Longrightarrow> nat_of_digits ds < 10 ^ length ds"
proof (induction ds rule: rev_induct)
  case Nil
  then show ?case by (simp add: nat_of_digits_def)
next
  case (snoc c ds)
  have "is_digit c" using snoc.prems by simp
  then have "of_char c - (48 :: nat) \<le> 9" unfolding is_digit_def Let_def by arith
  moreover have "nat_of_digits ds < 10 ^ length ds" using snoc by simp
  ultimately show ?case unfolding nat_of_digits_snoc by simp
qed

lemma digits_exact:
  assumes "\<forall>c \<in> set ds. is_digit c" "length ds \<le> 15"
  shows "nearest_double False (real (nat_of_digits ds)) = Float (real (nat_of_digits ds))"
proof -
  have "nat_of_digits ds < 10 ^ length ds" using assms(1) by (rule nat_of_digits_bound)
  also have "(10 :: nat) ^ length ds \<le> 10 ^ 15" using assms(2) by (intro power_increasing) simp_all
  also have "(10 :: nat) ^ 15 < 2 ^ 53" by simp
  finally show ?thesis by (rule nearest_double_nat)
qed

lemma py_float_digits:
  assumes "d \<noteq> []" "\<forall>c \<in> set d. is_digit c" "length d \<le> 15"
  shows "py_float d = Some (Float (real (nat_of_digits d)))"
proof -
  have hd: "is_digit (hd d)" using assms by simp
  show ?thesis
    using assms(1) strip_digits[OF assms(1,2)] take_sign_digit[OF assms(1) hd]
      lower_digits_not_word[OF assms(1) hd] digitpart_digits[OF assms(2)]
      digits_exact[OF assms(2,3)]
    by (simp add: py_float_def Let_def)
qed

lemma rep_counts_exact_short:
  "length (takeWhile p s) < n \<Longrightarrow> rep_counts p n (Some n) True s = []"
  by (simp add: rep_counts_def Let_def)

lemma rep_counts_exact_long:
  "n \<le> length (takeWhile p s) \<Longrightarrow> rep_counts p n (Some n) True s = [n]"
  by (simp add: rep_counts_def Let_def min_def)

lemma cik10_tail_long:
  assumes "\<forall>c \<in> set d. is_digit c" "10 \<le> length d"
  shows "rx_match [GroupOpen, Rep is_digit 10 (Some 10) True, GroupClose] (d @ rest) cap
         = Some (Closed (take 10 d), drop 10 d @ rest)"
proof -
  have "10 \<le> length (takeWhile is_digit (d @ rest))"
    using assms by (simp add: takeWhile_append2)
  then show ?thesis using assms(2) by (simp add: rep_counts_exact_long)
qed

lemma cik10_match_long:
  assumes "ws \<noteq> []" "\<forall>c \<in> set ws. is_space c" "d \<noteq> []" "\<forall>c \<in> set d. is_digit c" "10 \<le> length d"
  shows "rx_match cik10_pattern (''CENTRAL INDEX KEY:'' @ ws @ d @ rest) cap
         = Some (Closed (take 10 d), drop 10 d @ rest)"
proof -
  have hdd: "\<not> is_space (hd d)" using assms(3,4) space_not_digit by (metis hd_in_set)
  have tw: "takeWhile is_space (ws @ d @ rest) = ws"
    using assms(2,3) hdd by (intro takeWhile_run) (auto simp: hd_append)
  have "rx_match [plus is_space, GroupOpen, Rep is_digit 10 (Some 10) True, GroupClose] (ws @ d @ rest) cap
        = Some (Closed (take 10 d), drop 10 d @ rest)"
    by (rule rep_greedy_first)
      (use assms(1) tw cik10_tail_long[OF assms(4,5)] in \<open>auto simp: Suc_le_eq\<close>)
  then show ?thesis by (simp add: cik10_pattern_def)
qed

lemma cik10_match_short:
  assumes "\<forall>c \<in> set ws. is_space c" "d \<noteq> []" "\<forall>c \<in> set d. is_digit c" "length d < 10"
    and "rest = [] \<or> \<not> is_digit (hd rest)"
  shows "rx_match cik10_pattern (''CENTRAL INDEX KEY:'' @ ws @ d @ rest) cap = None"
proof -
  have hdd: "\<not> is_space (hd d)" using assms(2,3) space_not_digit by (metis hd_in_set)
  have tw: "takeWhile is_space (ws @ d @ rest) = ws"
    using assms(1,2) hdd by (intro takeWhile_run) (auto simp: hd_append)
  have td: "takeWhile is_digit (d @ rest) = d" using assms(3,5) by (rule takeWhile_run)
  have "first_some (\<lambda>k. rx_match [GroupOpen, Rep is_digit 10 (Some 10) True, GroupClose]
            (drop k (ws @ d @ rest)) cap) (rep_counts is_space 1 None True (ws @ d @ rest)) = None"
  proof (rule first_some_None)
    fix k assume "k \<in> set (rep_counts is_space 1 None True (ws @ d @ rest))"
    then have k: "k \<le> length ws" by (auto simp: rep_counts_def Let_def tw)
    have "length (takeWhile is_digit (drop k (ws @ d @ rest))) < 10"
    proof (cases "k < length ws")
      case True
      then have "drop k (ws @ d @ rest) = (ws ! k) # drop (Suc k) ws @ d @ rest"
        by (simp add: Cons_nth_drop_Suc)
      moreover have "\<not> is_digit (ws ! k)" using True assms(1) space_not_digit by simp
      ultimately show ?thesis by simp
    next
      case False
      then have "drop k (ws @ d @ rest) = d @ rest" using k by simp
      then show ?thesis using td assms(4) by simp
    qed
    then show "rx_match [GroupOpen, Rep is_digit 10 (Some 10) True, GroupClose]
            (drop k (ws @ d @ rest)) cap = None"
      by (simp add: rep_counts_exact_short)
  qed
  then show ?thesis by (simp add: cik10_pattern_def)
qed

lemma only_occurrenceD:
  "only_occurrence l s n \<Longrightarrow> i \<le> length s \<Longrightarrow> i \<noteq> n \<Longrightarrow> \<not> prefix l (drop i s)"
  by (auto simp: only_occurrence_def list_all_iff occurs_at_def)

lemma only_first: "only_occurrence l s n \<Longrightarrow> n \<le> length s \<Longrightarrow> first_occurrence l s n"
  by (auto simp: only_occurrence_def first_occurrence_def list_all_iff)

lemma re_search_cik10_long:
  assumes "content = pre @ ''CENTRAL INDEX KEY:'' @ ws @ d @ rest"
    and "first_occurrence ''CENTRAL INDEX KEY:'' content (length pre)"
    and "ws \<noteq> []" "\<forall>c \<in> set ws. is_space c" "d \<noteq> []" "\<forall>c \<in> set d. is_digit c"
    and "10 \<le> length d"
  shows "\<exists>m. re_search cik10_pattern content = Some m \<and> group1 m = Some (take 10 d)"
proof -
  have d: "drop (length pre) content = ''CENTRAL INDEX KEY:'' @ ws @ d @ rest"
    using assms(1) by simp
  have m: "rx_match cik10_pattern (drop (length pre) content) NoGroup
           = Some (Closed (take 10 d), drop 10 d @ rest)"
    unfolding d using assms(3-7) by (rule cik10_match_long)
  obtain m where mm: "match_at cik10_pattern (drop (length pre) content) (0 + length pre) = Some m"
    "group1 m = Some (take 10 d)"
    using m by (simp add: match_at_def Let_def)
  have "search_from cik10_pattern content 0 = Some m"
  proof (rule search_from_first[OF _ mm(1)])
    show "length pre \<le> length content" using assms(1) by simp
    fix i assume "i < length pre"
    then have "\<not> prefix ''CENTRAL INDEX KEY:'' (drop i content)"
      using assms(2) first_occurrenceD by blast
    then show "rx_match cik10_pattern (drop i content) NoGroup = None"
      by (simp add: cik10_pattern_def)
  qed
  then show ?thesis using mm(2) by (auto simp: re_search_def)
qed

lemma re_search_cik10_short:
  assumes "content = pre @ ''CENTRAL INDEX KEY:'' @ ws @ d @ rest"
    and "only_occurrence ''CENTRAL INDEX KEY:'' content (length pre)"
    and "\<forall>c \<in> set ws. is_space c" "d \<noteq> []" "\<forall>c \<in> set d. is_digit c"
    and "rest = [] \<or> \<not> is_digit (hd rest)" "length d < 10"
  shows "re_search cik10_pattern content = None"
  unfolding re_search_def
proof (rule search_from_None)
  fix i assume i: "i \<le> length content"
  show "rx_match cik10_pattern (drop i content) NoGroup = None"
  proof (cases "i = length pre")
    case True
    then have "drop i content = ''CENTRAL INDEX KEY:'' @ ws @ d @ rest" using assms(1) by simp
    then show ?thesis using cik10_match_short[OF assms(3,4,5,7,6)] by simp
  next
    case False
    then have "\<not> prefix ''CENTRAL INDEX KEY:'' (drop i content)"
      using only_occurrenceD[OF assms(2) i] by simp
    then show ?thesis by (simp add: cik10_pattern_def)
  qed
qed

lemma astype_float_cell_NA: "astype_float_cell NA = NA"
  by (simp add: astype_float_cell_def astype_float_ignore_def those_cells_def float_of_cell_def)

lemma astype_float_cell_digits:
  assumes "d \<noteq> []" "\<forall>c \<in> set d. is_digit c" "length d \<le> 15"
  shows "astype_float_cell (Str d) = Float (real (nat_of_digits d))"
  using py_float_digits[OF assms]
  by (simp add: astype_float_cell_def astype_float_ignore_def those_cells_def float_of_cell_def)

lemma accession_cik_col:
  "\<exists>r. parse_accession_info lib content = [r]
     \<and> get_col r ''CIK'' = Some (astype_float_cell (extract_field cik10_pattern NA content))"
  by (simp add: parse_accession_info_def format_accession_row_def Let_def extract_all_def
      map_col_def get_col_def accession_patterns_def)

lemma company_cik_col:
  "\<exists>r. parse_company_info lib content = [r]
     \<and> get_col r ''CIK'' = Some (extract_field (labelled ''CENTRAL INDEX KEY:'' is_digit) NA content)"
  by (simp add: parse_company_info_def Let_def extract_all_def map_col_def get_col_def
      company_patterns_def)

lemma cik_extractions:
  assumes "content = pre @ ''CENTRAL INDEX KEY:'' @ ws @ d @ rest"
    and "only_occurrence ''CENTRAL INDEX KEY:'' content (length pre)"
    and "ws \<noteq> []" "\<forall>c \<in> set ws. is_space c" "d \<noteq> []" "\<forall>c \<in> set d. is_digit c"
    and "rest = [] \<or> \<not> is_digit (hd rest)"
  shows "extract_field (labelled ''CENTRAL INDEX KEY:'' is_digit) NA content = Str d"
    and "extract_field cik10_pattern NA content = (if length d < 10 then NA else Str (take 10 d))"
proof -
  have fo: "first_occurrence ''CENTRAL INDEX KEY:'' content (length pre)"
    using assms(1,2) by (intro only_first) auto
  have hdd: "\<not> is_space (hd d)" using assms(5,6) space_not_digit by (metis hd_in_set)
  have "\<exists>m. re_search (labelled ''CENTRAL INDEX KEY:'' is_digit) content = Some m \<and> group1 m = Some d"
    using re_search_labelled[OF assms(1) fo assms(3,4,5,6) hdd assms(7)] .
  then show "extract_field (labelled ''CENTRAL INDEX KEY:'' is_digit) NA content = Str d"
    using strip_digits[OF assms(5,6)] by (auto simp: extract_field_def)
  show "extract_field cik10_pattern NA content = (if length d < 10 then NA else Str (take 10 d))"
  proof (cases "length d < 10")
    case True
    then show ?thesis
      using re_search_cik10_short[OF assms(1,2,4,5,6,7)] by (simp add: extract_field_def)
  next
    case False
    then have l: "10 \<le> length d" by simp
    have t: "take 10 d \<noteq> []" "\<forall>c \<in> set (take 10 d). is_digit c"
      using assms(5,6) by (auto dest: in_set_takeD)
    obtain m where "re_search cik10_pattern content = Some m" "group1 m = Some (take 10 d)"
      using re_search_cik10_long[OF assms(1) fo assms(3,4,5,6) l] by blast
    then show ?thesis using False strip_digits[OF t] by (simp add: extract_field_def)
  qed
qed

text \<open>
  Claim C10, amended. Take a text with one \<open>CENTRAL INDEX KEY:\<close> label, followed by
  whitespace and a run of digits that ends at a character that is no digit or at the end
  of the text. Then \<open>parse_company_info\<close> yields the whole run as the CIK.
  \<open>parse_accession_info\<close> yields an absent CIK when the run has fewer than 10 digits, and
  the number its first 10 digits write when it has 10 digits or more. The two extractions
  give the same digits exactly when the run has 10 digits.
\<close>

theorem C10_cik_paths:
  assumes "content = pre @ ''CENTRAL INDEX KEY:'' @ ws @ d @ rest"
    and "only_occurrence ''CENTRAL INDEX KEY:'' content (length pre)"
    and "ws \<noteq> []" "\<forall>c \<in> set ws. is_space c" "d \<noteq> []" "\<forall>c \<in> set d. is_digit c"
    and "rest = [] \<or> \<not> is_digit (hd rest)"
  shows "(\<exists>r. parse_company_info lib content = [r] \<and> get_col r ''CIK'' = Some (Str d))
    \<and> (\<exists>r. parse_accession_info lib content = [r]
          \<and> get_col r ''CIK'' = Some (if length d < 10 then NA
                                      else Float (real (nat_of_digits (take 10 d)))))
    \<and> (extract_field cik10_pattern NA content
         = extract_field (labelled ''CENTRAL INDEX KEY:'' is_digit) NA content
       \<longleftrightarrow> length d = 10)"
proof (intro conjI)
  note ex = cik_extractions[OF assms]
  show "\<exists>r. parse_company_info lib content = [r] \<and> get_col r ''CIK'' = Some (Str d)"
    using company_cik_col[of lib content] ex(1) by simp
  have t: "take 10 d \<noteq> []" "\<forall>c \<in> set (take 10 d). is_digit c"
    using assms(5,6) by (auto dest: in_set_takeD)
  show "\<exists>r. parse_accession_info lib content = [r]
          \<and> get_col r ''CIK'' = Some (if length d < 10 then NA
                                      else Float (real (nat_of_digits (take 10 d))))"
    using accession_cik_col[of lib content] ex(2) astype_float_cell_NA
      astype_float_cell_digits[OF t] by auto
  have "take 10 d = d \<longleftrightarrow> length d \<le> 10"
    by (metis take_all_iff)
  then show "extract_field cik10_pattern NA content
         = extract_field (labelled ''CENTRAL INDEX KEY:'' is_digit) NA content
       \<longleftrightarrow> length d = 10"
    using ex by auto
qed

theorem C10_cik_paths_witness:
  "short_cik_header = [] @ ''CENTRAL INDEX KEY:'' @ ''   '' @ ''1234567'' @ [CHR 0x0A]
   \<and> only_occurrence ''CENTRAL INDEX KEY:'' short_cik_header (length ([] :: string))
   \<and> list_all is_space ''   '' \<and> list_all is_digit ''1234567''
   \<and> \<not> is_digit (hd [CHR 0x0A])
   \<and> (\<exists>r. parse_company_info example_library short_cik_header = [r]
        \<and> get_col r ''CIK'' = Some (Str ''1234567''))
   \<and> (\<exists>r. parse_accession_info example_library short_cik_header = [r]
        \<and> get_col r ''CIK'' = Some NA)"
proof -
  have c: "short_cik_header = [] @ ''CENTRAL INDEX KEY:'' @ ''   '' @ ''1234567'' @ [CHR 0x0A]"
    by (simp add: short_cik_header_def)
  have o: "only_occurrence ''CENTRAL INDEX KEY:'' short_cik_header (length ([] :: string))"
    by code_simp
  have w: "list_all is_space ''   ''" "list_all is_digit ''1234567''" "\<not> is_digit (hd [CHR 0x0A])"
    by (simp_all add: is_space_def is_digit_def)
  show ?thesis
    using C10_cik_paths [of short_cik_header "[]" "''   ''" "''1234567''" "[CHR 0x0A]"
        example_library] c o w
    by (simp add: list_all_iff)
qed

text \<open>
  The claim as stated fails for a run of more than 10 digits: with 11 digits the CIK of
  \<open>parse_accession_info\<close> is not absent, it is the number of the first 10 digits.
\<close>

theorem C10_long_run_counterexample:
  "length ''12345678901'' \<noteq> 10
   \<and> length (parse_company_info example_library long_cik_header) = 1
   \<and> get_col (hd (parse_company_info example_library long_cik_header)) ''CIK''
       = Some (Str ''12345678901'')
   \<and> length (parse_accession_info example_library long_cik_header) = 1
   \<and> get_col (hd (parse_accession_info example_library long_cik_header)) ''CIK''
       = Some (Float 1234567890)
   \<and> get_col (hd (parse_accession_info example_library long_cik_header)) ''CIK'' \<noteq> Some NA"
proof -
  have c: "long_cik_header = [] @ ''CENTRAL INDEX KEY:'' @ '' '' @ ''12345678901'' @ []"
    by (simp add: long_cik_header_def)
  have o: "only_occurrence ''CENTRAL INDEX KEY:'' long_cik_header (length ([] :: string))"
    by code_simp
  have w: "\<forall>c \<in> set '' ''. is_space c" "\<forall>c \<in> set ''12345678901''. is_digit c"
    by (simp_all add: is_space_def is_digit_def)
  have ex: "extract_field (labelled ''CENTRAL INDEX KEY:'' is_digit) NA long_cik_header = Str ''12345678901''"
    "extract_field cik10_pattern NA long_cik_header = Str ''1234567890''"
    using cik_extractions[OF c o _ w(1) _ w(2)] by simp_all
  have n: "nat_of_digits ''1234567890'' = 1234567890" by (simp add: nat_of_digits_def)
  have f: "astype_float_cell (Str ''1234567890'') = Float 1234567890"
    using astype_float_cell_digits[of "''1234567890''"] n by (simp add: is_digit_def)
  show ?thesis
    using company_cik_col[of example_library long_cik_header]
      accession_cik_col[of example_library long_cik_header] ex f by auto
qed

section \<open>Holdings table: numeric fields\<close>

lemma sequence_sum_Inr:
  "sequence_sum xs = Inr vs \<Longrightarrow> xs = map Inr vs"
  by (induction xs arbitrary: vs) (auto split: sum.splits)

lemma sequence_sum_map_Inr: "sequence_sum (map Inr vs) = Inr vs"
  by (induction vs) auto

lemma sequence_sum_Inl:
  "x \<in> set xs \<Longrightarrow> x = Inl e \<Longrightarrow> \<exists>e'. sequence_sum xs = Inl e'"
  by (induction xs) (auto split: sum.splits)

lemma those_cells_Some:
  "those_cells xs = Some ys \<longleftrightarrow> xs = map Some ys"
proof
  assume "those_cells xs = Some ys"
  then have a: "list_all (\<lambda>x. x \<noteq> None) xs" "ys = map the xs"
    by (auto simp: those_cells_def split: if_splits)
  then show "xs = map Some ys" by (induction xs arbitrary: ys) auto
next
  assume "xs = map Some ys"
  then show "those_cells xs = Some ys" by (simp add: those_cells_def list_all_iff comp_def)
qed

lemma those_cells_None:
  "None \<in> set xs \<Longrightarrow> those_cells xs = None"
  by (auto simp: those_cells_def list_all_iff)

lemma strs_normal:
  "map (replace_empty \<circ> remove_whitespace \<circ> astype_str) col = map normal_text col"
  by (simp add: normal_text_def)

lemma convert_numeric_column_alt:
  "convert_numeric_column col =
     sequence_sum (map Int64_of_cell (astype_float_ignore (map Str (map normal_text col))))"
  unfolding convert_numeric_column_def Let_def strs_normal ..

lemma whole_float_Int64:
  assumes "\<forall>c \<in> set ds. is_digit c" "length ds \<le> 15"
  shows "Int64_of_cell (Float (real (nat_of_digits ds))) = Inr (Integer (int (nat_of_digits ds)))"
proof -
  have "nat_of_digits ds < 10 ^ length ds" using assms(1) by (rule nat_of_digits_bound)
  also have "(10 :: nat) ^ length ds \<le> 10 ^ 15" using assms(2) by (intro power_increasing) simp_all
  also have "(10 :: nat) ^ 15 < 2 ^ 63" by simp
  finally have "int (nat_of_digits ds) < 2 ^ 63"
    by (metis of_nat_less_iff of_nat_numeral of_nat_power)
  then show ?thesis by (simp add: Int64_of_cell_def)
qed

lemma convert_numeric_column_digits:
  assumes "\<forall>v \<in> set col. normal_text v \<noteq> [] \<and> (\<forall>c \<in> set (normal_text v). is_digit c)
             \<and> length (normal_text v) \<le> 15"
  shows "convert_numeric_column col = Inr (map (\<lambda>v. Integer (int (nat_of_digits (normal_text v)))) col)"
proof -
  let ?fs = "map (\<lambda>v. Float (real (nat_of_digits (normal_text v)))) col"
  have f: "float_of_cell (Str (normal_text v)) = Some (Float (real (nat_of_digits (normal_text v))))"
    if "v \<in> set col" for v
    using that assms py_float_digits by (simp add: float_of_cell_def)
  have "map float_of_cell (map Str (map normal_text col)) = map Some ?fs"
    using f by simp
  then have "those_cells (map float_of_cell (map Str (map normal_text col))) = Some ?fs"
    using those_cells_Some by blast
  then have a: "astype_float_ignore (map Str (map normal_text col)) = ?fs"
    unfolding astype_float_ignore_def by simp
  have b: "map Int64_of_cell ?fs
        = map Inr (map (\<lambda>v. Integer (int (nat_of_digits (normal_text v)))) col)"
    using assms whole_float_Int64 by simp
  show ?thesis
    unfolding convert_numeric_column_alt a b by (rule sequence_sum_map_Inr)
qed

lemma convert_numeric_column_unparsable:
  assumes "v \<in> set col" "py_float (normal_text v) = None"
  shows "\<exists>e. convert_numeric_column col = Inl e"
proof -
  let ?cells = "map Str (map normal_text col)"
  have "float_of_cell (Str (normal_text v)) = None" using assms(2) by (simp add: float_of_cell_def)
  then have "None \<in> set (map float_of_cell ?cells)"
    using assms(1) by force
  then have "those_cells (map float_of_cell ?cells) = None" by (rule those_cells_None)
  then have a: "astype_float_ignore ?cells = ?cells"
    unfolding astype_float_ignore_def by simp
  have "Int64_of_cell (Str (normal_text v)) = Inl ValueError" by (simp add: Int64_of_cell_def)
  then have "Inl ValueError \<in> set (map Int64_of_cell ?cells)"
    using assms(1) by force
  then show ?thesis
    unfolding convert_numeric_column_alt a by (rule sequence_sum_Inl) simp
qed

lemma normal_text_blank:
  "remove_whitespace t = [] \<Longrightarrow> normal_text (ElemText t) = ''0''"
  by (simp add: normal_text_def astype_str_def replace_empty_def)

lemma normal_text_nonempty: "normal_text v \<noteq> []"
  by (simp add: normal_text_def replace_empty_def)

lemma map_col_keys: "map fst (map_col col f r) = map fst r"
  by (induction r) (auto simp: map_col_def)

lemma get_col_map_col:
  "get_col (map_col col f r) c = (if c = col then map_option f (get_col r c) else get_col r c)"
  by (induction r) (auto simp: map_col_def get_col_def)

lemma with_column_length: "length vs = length df \<Longrightarrow> length (with_column col vs df) = length df"
  by (simp add: with_column_def)

lemma with_column_nth:
  "length vs = length df \<Longrightarrow> i < length df \<Longrightarrow>
   with_column col vs df ! i = map_col col (\<lambda>_. vs ! i) (df ! i)"
  by (simp add: with_column_def)

lemma get_col_present: "c \<in> set (map fst r) \<Longrightarrow> \<exists>v. get_col r c = Some v"
  by (induction r) (auto simp: get_col_def)

lemma convert_columns_digits:
  assumes "\<forall>d \<in> set pd. \<forall>col \<in> set cols.
             col \<in> set (map fst d) \<and> (\<forall>c \<in> set (normal_text (cell_at d col)). is_digit c)
             \<and> length (normal_text (cell_at d col)) \<le> 15"
    and "length df = length pd" "\<forall>i < length pd. map fst (df ! i) = map fst (pd ! i)"
  shows "\<exists>df'. convert_columns cols pd df = Inr df' \<and> length df' = length pd
           \<and> (\<forall>i < length pd. map fst (df' ! i) = map fst (pd ! i)
                \<and> (\<forall>c. get_col (df' ! i) c =
                     (if c \<in> set cols
                      then Some (Integer (int (nat_of_digits (normal_text (cell_at (pd ! i) c)))))
                      else get_col (df ! i) c)))"
  using assms
proof (induction cols arbitrary: df)
  case Nil
  then show ?case by simp
next
  case (Cons col cols)
  show ?case
  proof (cases "pd = []")
    case True
    have "\<exists>df'. convert_columns cols pd df = Inr df' \<and> length df' = length pd"
      using Cons.IH[of df] Cons.prems True by simp
    then show ?thesis using True by auto
  next
    case False
    then have hdpd: "hd pd \<in> set pd" by simp
    then have guard: "col \<in> set (map fst (hd pd))" using Cons.prems(1) by simp
    let ?vs = "map (\<lambda>v. Integer (int (nat_of_digits (normal_text v)))) (column_of pd col)"
    have "\<forall>v \<in> set (column_of pd col). normal_text v \<noteq> [] \<and> (\<forall>c \<in> set (normal_text v). is_digit c)
             \<and> length (normal_text v) \<le> 15"
      using Cons.prems(1) by (auto simp: column_of_def normal_text_nonempty)
    then have conv: "convert_numeric_column (column_of pd col) = Inr ?vs"
      by (rule convert_numeric_column_digits)
    have lvs: "length ?vs = length df" using Cons.prems(2) by (simp add: column_of_def)
    let ?df1 = "with_column col ?vs df"
    have l1: "length ?df1 = length pd" using lvs Cons.prems(2) by (simp add: with_column_length)
    have k1: "\<forall>i < length pd. map fst (?df1 ! i) = map fst (pd ! i)"
      using lvs Cons.prems(2,3) by (simp add: with_column_nth map_col_keys)
    have p1: "\<forall>d \<in> set pd. \<forall>c \<in> set cols.
             c \<in> set (map fst d) \<and> (\<forall>x \<in> set (normal_text (cell_at d c)). is_digit x)
             \<and> length (normal_text (cell_at d c)) \<le> 15"
      using Cons.prems(1) by simp
    obtain df' where r: "convert_columns cols pd ?df1 = Inr df'" "length df' = length pd"
      "\<forall>i < length pd. map fst (df' ! i) = map fst (pd ! i)
                \<and> (\<forall>c. get_col (df' ! i) c =
                     (if c \<in> set cols
                      then Some (Integer (int (nat_of_digits (normal_text (cell_at (pd ! i) c)))))
                      else get_col (?df1 ! i) c))"
      using Cons.IH[OF p1 l1 k1] by blast
    have step: "convert_columns (col # cols) pd df = Inr df'"
      using False guard conv r(1) by simp
    have g1: "get_col (?df1 ! i) c =
        (if c = col then Some (Integer (int (nat_of_digits (normal_text (cell_at (pd ! i) c)))))
         else get_col (df ! i) c)" if "i < length pd" for i c
    proof -
      have "col \<in> set (map fst (df ! i))"
        using that Cons.prems(1,3) by (metis list.set_intros(1) nth_mem)
      then obtain v where "get_col (df ! i) col = Some v" using get_col_present by blast
      then show ?thesis
        using that lvs Cons.prems(2) by (simp add: with_column_nth get_col_map_col column_of_def)
    qed
    show ?thesis
      using step r(2,3) g1 by auto
  qed
qed

lemma convert_columns_unparsable:
  assumes "d \<in> set pd" "col \<in> set cols" "col \<in> set (map fst (hd pd))"
    and "py_float (normal_text (cell_at d col)) = None"
  shows "\<exists>e. convert_columns cols pd df = Inl e"
  using assms(2)
proof (induction cols arbitrary: df)
  case Nil
  then show ?case by simp
next
  case (Cons c cols)
  have ne: "pd \<noteq> []" using assms(1) by auto
  show ?case
  proof (cases "c = col")
    case True
    have "cell_at d col \<in> set (column_of pd col)" using assms(1) by (simp add: column_of_def)
    then obtain e where "convert_numeric_column (column_of pd col) = Inl e"
      using convert_numeric_column_unparsable assms(4) by blast
    then show ?thesis using True ne assms(3) by simp
  next
    case False
    then have "col \<in> set cols" using Cons.prems by simp
    then have ih: "\<exists>e. convert_columns cols pd df' = Inl e" for df' using Cons.IH by blast
    show ?thesis
      using ih by (cases "convert_numeric_column (column_of pd c)") auto
  qed
qed

lemma holding_data_keys:
  "map fst (Form13FParser_holding_data acc date t) =
     [''ACCESSION_NUMBER'', ''CONFORMED_DATE'', ''NAME_OF_ISSUER'', ''TITLE_OF_CLASS'', ''CUSIP'',
      ''SHARE_VALUE'', ''SHARE_AMOUNT'', ''SH_PRN'', ''PUT_CALL'', ''DISCRETION'',
      ''SOLE_VOTING_AUTHORITY'', ''SHARED_VOTING_AUTHORITY'', ''NONE_VOTING_AUTHORITY'']"
  by (simp add: Form13FParser_holding_data_def)

lemma numeric_columns_present:
  "col \<in> set columns_to_convert \<Longrightarrow> col \<in> set (map fst (Form13FParser_holding_data acc date t))"
  unfolding holding_data_keys by (auto simp: columns_to_convert_def)

lemma initial_frame:
  "length (map (map (\<lambda>(col, v). (col, cell_of_elem v))) pd) = length pd"
  "\<forall>i < length pd. map fst (map (map (\<lambda>(col, v). (col, cell_of_elem v))) pd ! i) = map fst (pd ! i)"
  by (auto simp: comp_def case_prod_unfold)

lemma holdings_frame_digits:
  assumes "\<forall>d \<in> set pd. \<forall>col \<in> set columns_to_convert.
             col \<in> set (map fst d) \<and> (\<forall>c \<in> set (normal_text (cell_at d col)). is_digit c)
             \<and> length (normal_text (cell_at d col)) \<le> 15"
  shows "length (holdings_frame pd) = length pd
         \<and> (\<forall>i < length pd. \<forall>col \<in> set columns_to_convert.
              get_col (holdings_frame pd ! i) col =
                Some (Integer (int (nat_of_digits (normal_text (cell_at (pd ! i) col))))))"
proof -
  obtain df' where "convert_columns columns_to_convert pd
      (map (map (\<lambda>(col, v). (col, cell_of_elem v))) pd) = Inr df'" "length df' = length pd"
    "\<forall>i < length pd. \<forall>c. get_col (df' ! i) c =
        (if c \<in> set columns_to_convert
         then Some (Integer (int (nat_of_digits (normal_text (cell_at (pd ! i) c)))))
         else get_col (map (map (\<lambda>(col, v). (col, cell_of_elem v))) pd ! i) c)"
    using convert_columns_digits[OF assms initial_frame] by blast
  then show ?thesis by (simp add: holdings_frame_def)
qed

lemma holdings_frame_unparsable:
  assumes "d \<in> set pd" "col \<in> set columns_to_convert" "col \<in> set (map fst (hd pd))"
    and "py_float (normal_text (cell_at d col)) = None"
  shows "holdings_frame pd = []"
proof -
  obtain e where "convert_columns columns_to_convert pd
      (map (map (\<lambda>(col, v). (col, cell_of_elem v))) pd) = Inl e"
    using convert_columns_unparsable[OF assms] by blast
  then show ?thesis by (simp add: holdings_frame_def)
qed

lemma nat_of_digits_zero: "nat_of_digits ''0'' = 0"
  by (simp add: nat_of_digits_def)

lemma irs_number_cols:
  "\<exists>r. parse_company_info lib content = [r]
     \<and> get_col r ''IRS_NUMBER'' = Some (extract_field (labelled ''IRS NUMBER:'' is_digit) NA content)"
  "\<exists>r. SECFilingParser_parse_company_info lib content = [r]
     \<and> get_col r ''IRS_NUMBER'' = Some (search_field (labelled ''IRS NUMBER:'' is_digit) False content)"
  by (simp_all add: parse_company_info_def SECFilingParser_parse_company_info_def Let_def
      extract_all_def search_all_def map_col_def get_col_def company_patterns_def
      SECFilingParser_company_fields_def)

lemma header_irs_number_absent:
  assumes "no_occurrence ''IRS NUMBER:'' content"
  shows "\<exists>r. parse_company_info lib content = [r] \<and> get_col r ''IRS_NUMBER'' = Some NA"
    and "\<exists>r. SECFilingParser_parse_company_info lib content = [r]
           \<and> get_col r ''IRS_NUMBER'' = Some NA"
proof -
  have "re_search (labelled ''IRS NUMBER:'' is_digit) content = None"
    unfolding labelled_def by (rule re_search_no_label[OF assms]) simp
  then have v: "extract_field (labelled ''IRS NUMBER:'' is_digit) NA content = NA"
    "search_field (labelled ''IRS NUMBER:'' is_digit) False content = NA"
    by (simp_all add: extract_field_def search_field_def)
  show "\<exists>r. parse_company_info lib content = [r] \<and> get_col r ''IRS_NUMBER'' = Some NA"
    using irs_number_cols(1)[of lib content] v by simp
  show "\<exists>r. SECFilingParser_parse_company_info lib content = [r]
           \<and> get_col r ''IRS_NUMBER'' = Some NA"
    using irs_number_cols(2)[of lib content] v by simp
qed

lemma example_findall: "findall_infoTable (example_table v) = [example_entry v]"
  by (simp add: findall_infoTable_def example_table_def example_entry_def qname_def)

lemma example_cells:
  "cell_at (Form13FParser_holding_data acc date (example_entry v)) ''SHARE_VALUE''
     = (case v of None \<Rightarrow> ElemNone | Some t \<Rightarrow> ElemText t)"
  "cell_at (Form13FParser_holding_data acc date (example_entry v)) ''SHARE_AMOUNT'' = ElemText ''10 000''"
  "cell_at (Form13FParser_holding_data acc date (example_entry v)) ''SOLE_VOTING_AUTHORITY'' = ElemText ''10000''"
  "cell_at (Form13FParser_holding_data acc date (example_entry v)) ''SHARED_VOTING_AUTHORITY'' = ElemText ''0''"
  "cell_at (Form13FParser_holding_data acc date (example_entry v)) ''NONE_VOTING_AUTHORITY'' = ElemText ''0''"
  by (simp_all add: cell_at_def Form13FParser_holding_data_def text_at_def example_entry_def qname_def)

lemma normal_text_None: "normal_text ElemNone = ''None''"
  by (simp add: normal_text_def astype_str_def remove_whitespace_def replace_empty_def is_space_def)

lemma py_float_None_text: "py_float ''None'' = None"
  by (simp add: py_float_def strip_def take_sign_def to_lower_def is_space_def is_upper_AZ_def
      is_digit_def Let_def)

lemma example_parse_holdings:
  "Form13FParser_parse_holdings (tree_library (example_table v)) xml_data acc date
     = holdings_frame [Form13FParser_holding_data acc date (example_entry v)]"
  by (simp add: Form13FParser_parse_holdings_def tree_library_def example_findall)

lemma empty_value_no_rows:
  "Form13FParser_parse_holdings (tree_library (example_table None)) xml_data acc date = []"
proof -
  let ?d = "Form13FParser_holding_data acc date (example_entry None)"
  have cols: "''SHARE_VALUE'' \<in> set columns_to_convert" by (simp add: columns_to_convert_def)
  have k: "''SHARE_VALUE'' \<in> set (map fst (hd [?d]))"
    using numeric_columns_present[OF cols] by simp
  have a: "py_float (normal_text (cell_at ?d ''SHARE_VALUE'')) = None"
    by (simp add: example_cells normal_text_None py_float_None_text)
  have "holdings_frame [?d] = []"
    by (rule holdings_frame_unparsable[OF _ cols k a]) simp
  then show ?thesis by (simp add: example_parse_holdings)
qed

lemma blank_value_zero:
  "length (Form13FParser_parse_holdings (tree_library (example_table (Some ''  '')))
      xml_data acc date) = 1"
  "get_col (hd (Form13FParser_parse_holdings (tree_library (example_table (Some ''  '')))
      xml_data acc date)) ''SHARE_VALUE'' = Some (Integer 0)"
  "get_col (hd (Form13FParser_parse_holdings (tree_library (example_table (Some ''  '')))
      xml_data acc date)) ''SHARE_AMOUNT'' = Some (Integer 10000)"
proof -
  let ?d = "Form13FParser_holding_data acc date (example_entry (Some ''  ''))"
  have n: "normal_text (cell_at ?d ''SHARE_VALUE'') = ''0''"
    "normal_text (cell_at ?d ''SHARE_AMOUNT'') = ''10000''"
    "normal_text (cell_at ?d ''SOLE_VOTING_AUTHORITY'') = ''10000''"
    "normal_text (cell_at ?d ''SHARED_VOTING_AUTHORITY'') = ''0''"
    "normal_text (cell_at ?d ''NONE_VOTING_AUTHORITY'') = ''0''"
    by (simp_all add: example_cells normal_text_def astype_str_def remove_whitespace_def
        replace_empty_def is_space_def)
  have "\<forall>col \<in> set columns_to_convert.
      col \<in> set (map fst ?d) \<and> (\<forall>c \<in> set (normal_text (cell_at ?d col)). is_digit c)
      \<and> length (normal_text (cell_at ?d col)) \<le> 15"
    using numeric_columns_present[of _ acc date "example_entry (Some ''  '')"]
    by (auto simp: columns_to_convert_def n is_digit_def)
  then have "\<forall>d \<in> set [?d]. \<forall>col \<in> set columns_to_convert.
      col \<in> set (map fst d) \<and> (\<forall>c \<in> set (normal_text (cell_at d col)). is_digit c)
      \<and> length (normal_text (cell_at d col)) \<le> 15"
    by simp
  note fr = holdings_frame_digits[OF this]
  have cols: "''SHARE_VALUE'' \<in> set columns_to_convert" "''SHARE_AMOUNT'' \<in> set columns_to_convert"
    by (simp_all add: columns_to_convert_def)
  have nd: "nat_of_digits ''0'' = 0" "nat_of_digits ''10000'' = 10000"
    by (simp_all add: nat_of_digits_def)
  have len: "length (holdings_frame [?d]) = 1" using fr by simp
  then have h: "hd (holdings_frame [?d]) = holdings_frame [?d] ! 0"
    by (cases "holdings_frame [?d]") simp_all
  show "length (Form13FParser_parse_holdings (tree_library (example_table (Some ''  '')))
      xml_data acc date) = 1"
    using len by (simp add: example_parse_holdings)
  show "get_col (hd (Form13FParser_parse_holdings (tree_library (example_table (Some ''  '')))
      xml_data acc date)) ''SHARE_VALUE'' = Some (Integer 0)"
    using fr cols(1) n(1) nd(1) h by (simp add: example_parse_holdings)
  show "get_col (hd (Form13FParser_parse_holdings (tree_library (example_table (Some ''  '')))
      xml_data acc date)) ''SHARE_AMOUNT'' = Some (Integer 10000)"
    using fr cols(2) n(2) nd(2) h by (simp add: example_parse_holdings)
qed

lemma name_only_no_irs: "no_occurrence ''IRS NUMBER:'' name_only_header"
  by code_simp

text \<open>
  Claim C4. The claim's own case, a holdings entry with an empty \<open>value\<close> element, is the
  information table \<open>example_table None\<close>: ElementTree gives the text \<open>None\<close> to an empty
  element. \<open>astype(str)\<close> turns it into the string \<open>None\<close>, which \<open>.replace('', '0')\<close>
  does not match and \<open>float\<close> does not read, so the conversion of the column raises and
  \<open>parse_holdings\<close> returns the empty table: the entry yields no row, and no zero. The
  zero-fill the code attempts does work for a \<open>value\<close> element whose text is only
  whitespace. A header without an \<open>IRS NUMBER:\<close> label yields an absent \<open>IRS_NUMBER\<close>.
\<close>

theorem C4_empty_value_element:
  "findall_infoTable (example_table None) = [example_entry None]
   \<and> cell_at (Form13FParser_holding_data None None (example_entry None)) ''SHARE_VALUE'' = ElemNone
   \<and> normal_text ElemNone = ''None''
   \<and> py_float ''None'' = None
   \<and> Form13FParser_parse_holdings (tree_library (example_table None)) ''<XML></XML>'' None None = []
   \<and> length (Form13FParser_parse_holdings (tree_library (example_table (Some ''  '')))
        ''<XML></XML>'' None None) = 1
   \<and> get_col (hd (Form13FParser_parse_holdings (tree_library (example_table (Some ''  '')))
        ''<XML></XML>'' None None)) ''SHARE_VALUE'' = Some (Integer 0)
   \<and> get_col (hd (parse_company_info example_library name_only_header)) ''IRS_NUMBER'' = Some NA"
proof -
  have "get_col (hd (parse_company_info example_library name_only_header)) ''IRS_NUMBER'' = Some NA"
    using header_irs_number_absent(1)[OF name_only_no_irs, of example_library] by auto
  then show ?thesis
    by (simp add: example_findall example_cells normal_text_None py_float_None_text
        empty_value_no_rows blank_value_zero)
qed

section \<open>Storage: persisting a filing again\<close>

lemma save_accession_info_rows:
  "accession_rows (save_accession_info st df) = accession_rows st @ df"
  by (simp add: accession_rows_def save_accession_info_def split: option.splits)

lemma save_company_info_accession:
  "save_company_info lib st df = Inr st' \<Longrightarrow> accession_info_file st' = accession_info_file st"
  by (auto simp: save_company_info_def Let_def split: option.splits list.splits if_splits sum.splits)

lemma save_holdings_accession:
  "accession_info_file (save_holdings st df cik acn) = accession_info_file st"
  by (simp add: save_holdings_def)

lemma save_company_info_rows:
  "save_company_info lib st df = Inr st' \<Longrightarrow> accession_rows st' = accession_rows st"
  using save_company_info_accession[of lib st df st'] by (simp add: accession_rows_def)

lemma save_holdings_rows:
  "accession_rows (save_holdings st df cik acn) = accession_rows st"
  by (simp add: save_holdings_def accession_rows_def)

lemma process_filing_data_rows:
  assumes "first_as_int_str accession_info_df ''CIK'' = Inr cik"
    and "first_as_int_str accession_info_df ''ACCESSION_NUMBER'' = Inr acn"
  shows "accession_rows (snd (process_filing_data lib st accession_info_df company_info_df holdings_df))
         = accession_rows st @ accession_info_df"
proof (cases "save_company_info lib (save_accession_info st accession_info_df) company_info_df")
  case (Inl e)
  then show ?thesis using assms
    by (simp add: process_filing_data_def Let_def save_accession_info_rows)
next
  case (Inr st2)
  then show ?thesis using assms save_company_info_rows[OF Inr]
    by (simp add: process_filing_data_def Let_def save_accession_info_rows save_holdings_rows)
qed

lemma process_filing_data_holdings:
  assumes "first_as_int_str accession_info_df ''CIK'' = Inr cik"
    and "first_as_int_str accession_info_df ''ACCESSION_NUMBER'' = Inr acn"
    and "fst (process_filing_data lib st accession_info_df company_info_df holdings_df) = None"
  shows "holdings_files (snd (process_filing_data lib st accession_info_df company_info_df holdings_df))
           (cik, acn) = Some holdings_df"
  using assms
  by (cases "save_company_info lib (save_accession_info st accession_info_df) company_info_df")
    (simp_all add: process_filing_data_def Let_def save_holdings_def)

text \<open>
  Claim C2, amended. When the CIK and the accession number of the filing record convert
  to integers, each call of \<open>process_filing_data\<close> adds the rows of the filing record
  after those already in the accession table: after two calls with the same data the
  table holds its earlier rows followed by the record twice. The holdings file of that
  CIK and accession number is overwritten by a call that completes, so it holds the
  holdings once.
\<close>

theorem C2_reingestion_appends:
  assumes "first_as_int_str accession_info_df ''CIK'' = Inr cik"
    and "first_as_int_str accession_info_df ''ACCESSION_NUMBER'' = Inr acn"
    and "st1 = snd (process_filing_data lib st accession_info_df company_info_df holdings_df)"
    and "st2 = snd (process_filing_data lib st1 accession_info_df company_info_df holdings_df)"
  shows "accession_rows st1 = accession_rows st @ accession_info_df
    \<and> accession_rows st2 = accession_rows st @ accession_info_df @ accession_info_df
    \<and> (fst (process_filing_data lib st1 accession_info_df company_info_df holdings_df) = None
         \<longrightarrow> holdings_files st2 (cik, acn) = Some holdings_df)"
  using assms process_filing_data_rows[OF assms(1,2)] process_filing_data_holdings[OF assms(1,2)]
  by simp

lemma ex_cik: "first_as_int_str [example_filing_record] ''CIK'' = Inr ''1234567''"
  by (simp add: first_as_int_str_def get_col_def example_filing_record_def py_int_def py_str_def
      str_of_nat.simps digit_char_def)

lemma ex_acn: "first_as_int_str [example_filing_record] ''ACCESSION_NUMBER'' = Inr ''12345624000789''"
  by (simp add: first_as_int_str_def get_col_def example_filing_record_def py_int_def py_str_def
      str_of_nat.simps digit_char_def)

lemma example_calls_complete:
  "fst (process_filing_data example_library empty_store [example_filing_record]
          [example_header_record] []) = None"
  "fst (process_filing_data example_library
          (snd (process_filing_data example_library empty_store [example_filing_record]
                  [example_header_record] []))
          [example_filing_record] [example_header_record] []) = None"
  using ex_cik ex_acn
  by (simp_all add: process_filing_data_def Let_def save_company_info_def save_accession_info_def
      save_holdings_def empty_store_def example_library_def get_col_def example_header_record_def
      csv_cell_def is_digit_def)

theorem C2_reingestion_appends_witness:
  "first_as_int_str [example_filing_record] ''CIK'' = Inr ''1234567''
   \<and> first_as_int_str [example_filing_record] ''ACCESSION_NUMBER'' = Inr ''12345624000789''
   \<and> accession_rows (snd (process_filing_data example_library empty_store
         [example_filing_record] [example_header_record] [])) = [example_filing_record]
   \<and> accession_rows (snd (process_filing_data example_library
         (snd (process_filing_data example_library empty_store
                 [example_filing_record] [example_header_record] []))
         [example_filing_record] [example_header_record] []))
       = [example_filing_record, example_filing_record]
   \<and> holdings_files (snd (process_filing_data example_library
         (snd (process_filing_data example_library empty_store
                 [example_filing_record] [example_header_record] []))
         [example_filing_record] [example_header_record] []))
       (''1234567'', ''12345624000789'') = Some []"
  using C2_reingestion_appends [OF ex_cik ex_acn refl refl, of example_library empty_store
      "[example_header_record]" "[]"] ex_cik ex_acn example_calls_complete
  by (simp add: accession_rows_def empty_store_def)

text \<open>
  The claim as stated fails: persisting the same parsed data twice on an empty store
  leaves two rows with that accession number in the accession table.
\<close>

theorem C2_two_rows_counterexample:
  "length (filter (\<lambda>r. get_col r ''ACCESSION_NUMBER'' = Some (Float 12345624000789))
     (accession_rows (snd (process_filing_data example_library
         (snd (process_filing_data example_library empty_store
                 [example_filing_record] [example_header_record] []))
         [example_filing_record] [example_header_record] [])))) = 2"
proof -
  have "accession_rows (snd (process_filing_data example_library
         (snd (process_filing_data example_library empty_store
                 [example_filing_record] [example_header_record] []))
         [example_filing_record] [example_header_record] []))
       = [example_filing_record, example_filing_record]"
    using process_filing_data_rows[OF ex_cik ex_acn]
    by (simp add: accession_rows_def empty_store_def)
  then show ?thesis by (simp add: get_col_def example_filing_record_def)
qed

end
